theory Spec2Isabelle
  imports Complex_Main "HOL-Library.Sublist"
begin

section \<open>Python strings and the regular expressions the scripts use\<close>

text \<open>
  A Python \<open>str\<close> is a sequence of Unicode code points. The type \<open>char\<close> of HOL is a
  byte, so a string is modelled as the list of its code points; \<open>ascii\<close> writes an ASCII
  literal.
\<close>

type_synonym ustring = "nat list"

definition ascii :: "string \<Rightarrow> ustring" where
  "ascii s = map of_char s"

text \<open>
  \<open>re.compile('[...]+').findall(text)\<close> for a character class: the maximal non-empty runs
  of code points of the class, from left to right. \<open>cur\<close> is the run being read.
\<close>

fun runs_from :: "(nat \<Rightarrow> bool) \<Rightarrow> ustring \<Rightarrow> ustring \<Rightarrow> ustring list" where
  "runs_from P cur [] = (if cur = [] then [] else [cur])"
| "runs_from P cur (c # cs) =
     (if P c then runs_from P (cur @ [c]) cs
      else (if cur = [] then [] else [cur]) @ runs_from P [] cs)"

definition findall_class :: "(nat \<Rightarrow> bool) \<Rightarrow> ustring \<Rightarrow> ustring list" where
  "findall_class P text = runs_from P [] text"

text \<open>\<open>sep.join(parts)\<close>.\<close>

fun join :: "ustring \<Rightarrow> ustring list \<Rightarrow> ustring" where
  "join sep [] = []"
| "join sep [x] = x"
| "join sep (x # y # ys) = x @ sep @ join sep (y # ys)"

text \<open>\<open>needle in haystack\<close> on strings: \<open>needle\<close> occurs as a contiguous substring.\<close>

fun is_substr :: "ustring \<Rightarrow> ustring \<Rightarrow> bool" where
  "is_substr xs [] = (xs = [])"
| "is_substr xs (y # ys) = (prefix xs (y # ys) \<or> is_substr xs ys)"

section \<open>backend/scripts/language\_detector.py\<close>

text \<open>
  \<open>HEBREW_PATTERN\<close> is the class U+0590..U+05FF, \<open>GREEK_PATTERN\<close> the classes
  U+0370..U+03FF and U+1F00..U+1FFF, \<open>IMPERIAL_ARAMAIC_PATTERN\<close> the class
  U+10840..U+1085F, each under \<open>+\<close>.
\<close>

definition hebrew_cp :: "nat \<Rightarrow> bool" where
  "hebrew_cp c = (0x0590 \<le> c \<and> c \<le> 0x05FF)"

definition greek_cp :: "nat \<Rightarrow> bool" where
  "greek_cp c = ((0x0370 \<le> c \<and> c \<le> 0x03FF) \<or> (0x1F00 \<le> c \<and> c \<le> 0x1FFF))"

definition imperial_aramaic_cp :: "nat \<Rightarrow> bool" where
  "imperial_aramaic_cp c = (0x10840 \<le> c \<and> c \<le> 0x1085F)"

text \<open>
  \<open>ARAMAIC_PASSAGES\<close>: for each book the list \<open>chapters\<close> of ranges
  \<open>(ch_start, v_start, ch_end, v_end)\<close> and the set \<open>verses\<close> of pairs
  \<open>(chapter, verse)\<close>. \<open>py_range a b\<close> is \<open>range(a, b)\<close>.
\<close>

record passage_info =
  chapters :: "(int \<times> int \<times> int \<times> int) list"
  verses :: "(int \<times> int) set"

definition py_range :: "int \<Rightarrow> int \<Rightarrow> int list" where
  "py_range a b = [a..b - 1]"

definition daniel_info :: passage_info where
  "daniel_info = \<lparr>chapters = [(2, 4, 7, 28)], verses = {}\<rparr>"

definition ezra_info :: passage_info where
  "ezra_info = \<lparr>chapters = [],
     verses = set (map (\<lambda>v. (4, v)) (py_range 8 25)) \<union> set (map (\<lambda>v. (5, v)) (py_range 1 18))
            \<union> set (map (\<lambda>v. (6, v)) (py_range 1 19)) \<union> set (map (\<lambda>v. (7, v)) (py_range 12 27))\<rparr>"

definition jeremiah_info :: passage_info where
  "jeremiah_info = \<lparr>chapters = [], verses = {(10, 11)}\<rparr>"

definition genesis_info :: passage_info where
  "genesis_info = \<lparr>chapters = [], verses = {(31, 47)}\<rparr>"

definition ARAMAIC_PASSAGES :: "ustring \<rightharpoonup> passage_info" where
  "ARAMAIC_PASSAGES = map_of
     [(ascii ''daniel'', daniel_info), (ascii ''ezra'', ezra_info),
      (ascii ''jeremiah'', jeremiah_info), (ascii ''genesis'', genesis_info)]"

text \<open>
  \<open>ARAMAIC_VOCABULARY\<close>, in the order of the source's set display (Python iterates a set in
  an order of its own; only the number of matched words enters the decision).
\<close>

definition ARAMAIC_VOCABULARY :: "ustring list" where
  "ARAMAIC_VOCABULARY =
    [[1491, 1460, 1468, 1497], [1491, 1497],
     [1502, 1463, 1500, 1456, 1499, 1464, 1468, 1488], [1502, 1500, 1499, 1488],
     [1488, 1457, 1500, 1464, 1492, 1468], [1488, 1500, 1492],
     [1511, 1459, 1491, 1464, 1501], [1511, 1491, 1501],
     [1499, 1456, 1468, 1506, 1463, 1503], [1499, 1506, 1503],
     [1500, 1464, 1488], [1500, 1488],
     [1492, 1458, 1493, 1464, 1488], [1492, 1493, 1488]]"

text \<open>
  \<open>str.lower\<close> on the ASCII letters; a code point outside \<open>A..Z\<close> is kept. (No key of
  \<open>ARAMAIC_PASSAGES\<close> or of \<open>book_map\<close> is the lower case of a string with a non-ASCII
  letter.)
\<close>

definition lower_cp :: "nat \<Rightarrow> nat" where
  "lower_cp c = (if 65 \<le> c \<and> c \<le> 90 then c + 32 else c)"

definition py_lower :: "ustring \<Rightarrow> ustring" where
  "py_lower s = map lower_cp s"

definition book_map :: "ustring \<rightharpoonup> ustring" where
  "book_map = map_of
     [(ascii ''1samuel'', ascii ''samuel1''), (ascii ''2samuel'', ascii ''samuel2''),
      (ascii ''1kings'', ascii ''kings1''), (ascii ''2kings'', ascii ''kings2''),
      (ascii ''1chronicles'', ascii ''chronicles1''), (ascii ''2chronicles'', ascii ''chronicles2'')]"

text \<open>
  \<open>book.lower().replace(' ', '').replace('-', '')\<close>, then \<open>book_map.get(book_lower, book_lower)\<close>.
\<close>

definition book_key :: "ustring \<Rightarrow> ustring" where
  "book_key book =
     (let book_lower = filter (\<lambda>c. c \<noteq> 45) (filter (\<lambda>c. c \<noteq> 32) (py_lower book))
      in case book_map book_lower of Some b \<Rightarrow> b | None \<Rightarrow> book_lower)"

text \<open>The loop over \<open>passage_info['chapters']\<close>, with its three branches in the source's order.\<close>

fun in_chapter_ranges :: "(int \<times> int \<times> int \<times> int) list \<Rightarrow> int \<Rightarrow> int \<Rightarrow> bool" where
  "in_chapter_ranges [] chapter verse = False"
| "in_chapter_ranges ((ch_start, v_start, ch_end, v_end) # rs) chapter verse =
     (if ch_start \<le> chapter \<and> chapter \<le> ch_end then
        (if chapter = ch_start \<and> verse \<ge> v_start then True
         else if chapter = ch_end \<and> verse \<le> v_end then True
         else if ch_start < chapter \<and> chapter < ch_end then True
         else in_chapter_ranges rs chapter verse)
      else in_chapter_ranges rs chapter verse)"

definition is_aramaic_passage :: "ustring \<Rightarrow> int \<Rightarrow> int \<Rightarrow> bool" where
  "is_aramaic_passage book chapter verse =
     (case ARAMAIC_PASSAGES (book_key book) of
        None \<Rightarrow> False
      | Some info \<Rightarrow>
          if (chapter, verse) \<in> verses info then True
          else in_chapter_ranges (chapters info) chapter verse)"

text \<open>\<open>detect_aramaic_vocabulary\<close> returns \<open>(is_likely_aramaic, matched_words, confidence)\<close>.\<close>

definition detect_aramaic_vocabulary :: "ustring \<Rightarrow> bool \<times> ustring list \<times> real" where
  "detect_aramaic_vocabulary text =
     (if text = [] then (False, [], 0)
      else let matched = filter (\<lambda>word. is_substr word text) ARAMAIC_VOCABULARY
           in if matched = [] then (False, [], 0)
              else (length matched \<ge> 1, matched, min (real (length matched) / 3) 1))"

text \<open>
  The argument \<open>text\<close> of \<open>detect_language\<close> is tested with \<open>not text\<close> and
  \<open>isinstance(text, str)\<close>, so the model takes a Python value, with its truth value.
\<close>

datatype pyobj = PyNone | PyBool bool | PyInt int | PyStr ustring | PyList "pyobj list"

fun truthy :: "pyobj \<Rightarrow> bool" where
  "truthy PyNone = False"
| "truthy (PyBool b) = b"
| "truthy (PyInt i) = (i \<noteq> 0)"
| "truthy (PyStr s) = (s \<noteq> [])"
| "truthy (PyList xs) = (xs \<noteq> [])"

fun is_str :: "pyobj \<Rightarrow> bool" where
  "is_str (PyStr s) = True"
| "is_str _ = False"

fun str_of :: "pyobj \<Rightarrow> ustring" where
  "str_of (PyStr s) = s"
| "str_of _ = []"

datatype language = Hebrew | Greek | Aramaic | Unknown

record detection =
  language :: language
  confidence :: real
  matches :: "ustring list"
  hebrew_count :: nat
  greek_count :: nat
  aramaic_count :: nat
  aramaic_words :: "ustring list"
  is_known_aramaic_passage :: bool

definition unknown_detection :: detection where
  "unknown_detection =
     \<lparr>language = Unknown, confidence = 0, matches = [], hebrew_count = 0, greek_count = 0,
      aramaic_count = 0, aramaic_words = [], is_known_aramaic_passage = False\<rparr>"

text \<open>
  \<open>if book and chapter and verse\<close>: a hint that is \<open>None\<close>, an empty book name, and a
  chapter or verse \<open>0\<close> are all false.
\<close>

definition hints_given :: "ustring option \<Rightarrow> int option \<Rightarrow> int option \<Rightarrow> bool" where
  "hints_given book chapter verse =
     ((case book of None \<Rightarrow> False | Some b \<Rightarrow> b \<noteq> [])
      \<and> (case chapter of None \<Rightarrow> False | Some c \<Rightarrow> c \<noteq> 0)
      \<and> (case verse of None \<Rightarrow> False | Some v \<Rightarrow> v \<noteq> 0))"

text \<open>
  The body of \<open>detect_language\<close> after the guard, on a non-empty string. The confidences are
  Python floats; they are modelled as reals.
\<close>

definition detect_text ::
  "ustring \<Rightarrow> ustring option \<Rightarrow> int option \<Rightarrow> int option \<Rightarrow> detection" where
  "detect_text text book chapter verse =
     (let hebrew_matches = findall_class hebrew_cp text;
          greek_matches = findall_class greek_cp text;
          imperial_aramaic_matches = findall_class imperial_aramaic_cp text;
          hebrew_count = length hebrew_matches;
          greek_count = length greek_matches;
          imperial_aramaic_count = length imperial_aramaic_matches;
          is_known_aramaic =
            (if hints_given book chapter verse
             then is_aramaic_passage (the book) (the chapter) (the verse) else False);
          (has_aramaic_vocab, aramaic_words, vocab_confidence) = detect_aramaic_vocabulary text;
          (language, matches, confidence, aramaic_count) =
            (if is_known_aramaic \<and> hebrew_count > 0 then
               (Aramaic, hebrew_matches, 95 / 100, hebrew_count)
             else if imperial_aramaic_count > 0 then
               (let aramaic_matches = hebrew_matches @ imperial_aramaic_matches;
                    aramaic_count = length aramaic_matches;
                    total = hebrew_count + greek_count + imperial_aramaic_count
                in (Aramaic, aramaic_matches,
                    if total > 0 then real aramaic_count / real total else 1, aramaic_count))
             else if has_aramaic_vocab \<and> hebrew_count > 0 \<and> vocab_confidence > 5 / 10 then
               (Aramaic, hebrew_matches, vocab_confidence, hebrew_count)
             else if hebrew_count > 0 then
               (let total = hebrew_count + greek_count
                in (Hebrew, hebrew_matches,
                    if total > 0 then real hebrew_count / real total else 1, 0))
             else if greek_count > 0 then
               (let total = hebrew_count + greek_count
                in (Greek, greek_matches,
                    if total > 0 then real greek_count / real total else 1, 0))
             else (Unknown, [], 0, 0))
      in \<lparr>language = language, confidence = confidence, matches = matches,
          hebrew_count = hebrew_count, greek_count = greek_count,
          aramaic_count = aramaic_count, aramaic_words = aramaic_words,
          is_known_aramaic_passage = is_known_aramaic\<rparr>)"

definition detect_language ::
  "pyobj \<Rightarrow> ustring option \<Rightarrow> int option \<Rightarrow> int option \<Rightarrow> detection" where
  "detect_language text book chapter verse =
     (if \<not> truthy text \<or> \<not> is_str text then unknown_detection
      else detect_text (str_of text) book chapter verse)"

text \<open>
  The rule for one chapter range as the specification words it: any chapter strictly
  between \<open>chStart\<close> and \<open>chEnd\<close> counts, \<open>chapter = chStart\<close> counts if
  \<open>verse \<ge> vStart\<close>, \<open>chapter = chEnd\<close> counts if \<open>verse \<le> vEnd\<close>. It is compared
  with \<open>in_chapter_ranges\<close>, which follows the source.
\<close>

definition spec_in_range :: "int \<times> int \<times> int \<times> int \<Rightarrow> int \<Rightarrow> int \<Rightarrow> bool" where
  "spec_in_range r chapter verse =
     (case r of (chStart, vStart, chEnd, vEnd) \<Rightarrow>
        (chStart < chapter \<and> chapter < chEnd)
        \<or> (chapter = chStart \<and> verse \<ge> vStart)
        \<or> (chapter = chEnd \<and> verse \<le> vEnd))"

text \<open>
  The text of the module's own test 3, the Aramaic opening of Daniel 2:4 in Hebrew script
  (three pointed words separated by spaces).
\<close>

definition daniel_2_4_text :: ustring where
  "daniel_2_4_text = [1502, 1463, 1500, 1456, 1499, 1464, 1468, 1488, 32, 1500, 1456, 1506,
     1464, 1500, 1456, 1502, 1460, 1497, 1503, 32, 1495, 1457, 1497, 1460, 1497]"


subsection \<open>The calls with arguments of any type\<close>

text \<open>
  \<open>is_aramaic_passage\<close> and \<open>detect_language\<close> above take the hints with the types of their
  annotations (\<open>book: str\<close>, \<open>chapter: int\<close>, \<open>verse: int\<close>, each of them possibly \<open>None\<close> in
  \<open>detect_language\<close>). Python does not check the annotations. The definitions of this section
  take any value for the hints and for the text, and return the exception where the
  interpreter raises one.
\<close>

datatype error = ValueError | AttributeError | TypeError

text \<open>
  An argument is a value of one of the built-in types of \<open>pyobj\<close>, or an instance of another
  class that is not a subclass of \<open>str\<close>; of the latter only the truth test is used, and
  \<open>Foreign t\<close> carries what the test does: it returns a truth value or raises (as
  \<open>bool(a)\<close> does for an array of several elements).
\<close>

datatype pyarg = Builtin pyobj | Foreign "error + bool"

text \<open>
  \<open>bool\<close> is a subclass of \<open>int\<close>: \<open>True\<close> and \<open>False\<close> hash, compare and are equal as 1 and 0.
  A value that is no number is equal to no number, and an order comparison of it with a number
  raises \<open>TypeError\<close>.
\<close>

fun num_of :: "pyobj \<Rightarrow> int option" where
  "num_of (PyInt i) = Some i"
| "num_of (PyBool b) = Some (if b then 1 else 0)"
| "num_of _ = None"

fun is_list :: "pyobj \<Rightarrow> bool" where
  "is_list (PyList xs) = True"
| "is_list _ = False"

text \<open>\<open>x >= n\<close> and \<open>x <= n\<close> for an integer \<open>n\<close>.\<close>

definition py_ge :: "pyobj \<Rightarrow> int \<Rightarrow> error + bool" where
  "py_ge x n = (case num_of x of None \<Rightarrow> Inl TypeError | Some i \<Rightarrow> Inr (i \<ge> n))"

definition py_le :: "pyobj \<Rightarrow> int \<Rightarrow> error + bool" where
  "py_le x n = (case num_of x of None \<Rightarrow> Inl TypeError | Some i \<Rightarrow> Inr (i \<le> n))"

text \<open>
  The loop over \<open>passage_info['chapters']\<close>. The chained comparison
  \<open>ch_start <= chapter <= ch_end\<close> raises for a chapter that is no number; \<open>and\<close> evaluates the
  comparison of the verse only when the chapter is equal to the bound.
\<close>

fun in_chapter_ranges_dyn ::
  "(int \<times> int \<times> int \<times> int) list \<Rightarrow> pyobj \<Rightarrow> pyobj \<Rightarrow> error + bool" where
  "in_chapter_ranges_dyn [] chapter verse = Inr False"
| "in_chapter_ranges_dyn ((ch_start, v_start, ch_end, v_end) # rs) chapter verse =
     (case num_of chapter of
        None \<Rightarrow> Inl TypeError
      | Some c \<Rightarrow>
          if ch_start \<le> c \<and> c \<le> ch_end then
            (case (if c = ch_start then py_ge verse v_start else Inr False) of
               Inl e \<Rightarrow> Inl e
             | Inr first \<Rightarrow>
                 if first then Inr True
                 else (case (if c = ch_end then py_le verse v_end else Inr False) of
                         Inl e \<Rightarrow> Inl e
                       | Inr second \<Rightarrow>
                           if second then Inr True
                           else if ch_start < c \<and> c < ch_end then Inr True
                           else in_chapter_ranges_dyn rs chapter verse))
          else in_chapter_ranges_dyn rs chapter verse)"

text \<open>
  \<open>is_aramaic_passage\<close>: \<open>book.lower()\<close> raises \<open>AttributeError\<close> for a book that is no string;
  the membership test in the set \<open>passage_info['verses']\<close> hashes the tuple
  \<open>(chapter, verse)\<close>, which raises \<open>TypeError\<close> when one of them is a list.
\<close>

definition is_aramaic_passage_dyn :: "pyobj \<Rightarrow> pyobj \<Rightarrow> pyobj \<Rightarrow> error + bool" where
  "is_aramaic_passage_dyn book chapter verse =
     (if \<not> is_str book then Inl AttributeError
      else (case ARAMAIC_PASSAGES (book_key (str_of book)) of
              None \<Rightarrow> Inr False
            | Some info \<Rightarrow>
                if is_list chapter \<or> is_list verse then Inl TypeError
                else if (case (num_of chapter, num_of verse) of
                           (Some c, Some v) \<Rightarrow> (c, v) \<in> verses info
                         | _ \<Rightarrow> False)
                then Inr True
                else in_chapter_ranges_dyn (chapters info) chapter verse))"

text \<open>
  The body of \<open>detect_language\<close> from the vocabulary check on, given the string and the value
  of \<open>is_known_aramaic\<close>. Nothing in it raises.
\<close>

definition decide_language :: "ustring \<Rightarrow> bool \<Rightarrow> detection" where
  "decide_language text is_known_aramaic =
     (let hebrew_matches = findall_class hebrew_cp text;
          greek_matches = findall_class greek_cp text;
          imperial_aramaic_matches = findall_class imperial_aramaic_cp text;
          hebrew_count = length hebrew_matches;
          greek_count = length greek_matches;
          imperial_aramaic_count = length imperial_aramaic_matches;
          (has_aramaic_vocab, aramaic_words, vocab_confidence) = detect_aramaic_vocabulary text;
          (language, matches, confidence, aramaic_count) =
            (if is_known_aramaic \<and> hebrew_count > 0 then
               (Aramaic, hebrew_matches, 95 / 100, hebrew_count)
             else if imperial_aramaic_count > 0 then
               (let aramaic_matches = hebrew_matches @ imperial_aramaic_matches;
                    aramaic_count = length aramaic_matches;
                    total = hebrew_count + greek_count + imperial_aramaic_count
                in (Aramaic, aramaic_matches,
                    if total > 0 then real aramaic_count / real total else 1, aramaic_count))
             else if has_aramaic_vocab \<and> hebrew_count > 0 \<and> vocab_confidence > 5 / 10 then
               (Aramaic, hebrew_matches, vocab_confidence, hebrew_count)
             else if hebrew_count > 0 then
               (let total = hebrew_count + greek_count
                in (Hebrew, hebrew_matches,
                    if total > 0 then real hebrew_count / real total else 1, 0))
             else if greek_count > 0 then
               (let total = hebrew_count + greek_count
                in (Greek, greek_matches,
                    if total > 0 then real greek_count / real total else 1, 0))
             else (Unknown, [], 0, 0))
      in \<lparr>language = language, confidence = confidence, matches = matches,
          hebrew_count = hebrew_count, greek_count = greek_count,
          aramaic_count = aramaic_count, aramaic_words = aramaic_words,
          is_known_aramaic_passage = is_known_aramaic\<rparr>)"

text \<open>
  \<open>detect_language\<close>. The guard \<open>not text or not isinstance(text, str)\<close> tests the truth of
  the text first. \<open>book and chapter and verse\<close> stops at the first false value.
\<close>

definition detect_language_dyn :: "pyarg \<Rightarrow> pyobj \<Rightarrow> pyobj \<Rightarrow> pyobj \<Rightarrow> error + detection" where
  "detect_language_dyn text book chapter verse =
     (case text of
        Foreign t \<Rightarrow> (case t of Inl e \<Rightarrow> Inl e | Inr b \<Rightarrow> Inr unknown_detection)
      | Builtin x \<Rightarrow>
          if \<not> truthy x \<or> \<not> is_str x then Inr unknown_detection
          else (case (if truthy book \<and> truthy chapter \<and> truthy verse
                      then is_aramaic_passage_dyn book chapter verse else Inr False) of
                  Inl e \<Rightarrow> Inl e
                | Inr is_known_aramaic \<Rightarrow> Inr (decide_language (str_of x) is_known_aramaic)))"

text \<open>The hints of the annotated types, as values.\<close>

definition hint_str :: "ustring option \<Rightarrow> pyobj" where
  "hint_str book = (case book of None \<Rightarrow> PyNone | Some b \<Rightarrow> PyStr b)"

definition hint_int :: "int option \<Rightarrow> pyobj" where
  "hint_int n = (case n of None \<Rightarrow> PyNone | Some i \<Rightarrow> PyInt i)"

section \<open>extract\_hebrew\_from\_bhs.py\<close>

text \<open>
  The module's own \<open>HEBREW_PATTERN\<close>: the character class lists the block U+0590..U+05FF and
  four sub-ranges and one code point of it.
\<close>

definition bhs_hebrew_cp :: "nat \<Rightarrow> bool" where
  "bhs_hebrew_cp c =
     ((0x0590 \<le> c \<and> c \<le> 0x05FF) \<or> (0x05B0 \<le> c \<and> c \<le> 0x05BC)
      \<or> (0x05C1 \<le> c \<and> c \<le> 0x05C2) \<or> (0x05C4 \<le> c \<and> c \<le> 0x05C5) \<or> c = 0x05C7)"

text \<open>\<open>text.split('\n')\<close>: the pieces between the separators; the empty text gives one empty line.\<close>

fun split_on :: "nat \<Rightarrow> ustring \<Rightarrow> ustring list" where
  "split_on sep [] = [[]]"
| "split_on sep (c # cs) =
     (if c = sep then [] # split_on sep cs
      else (case split_on sep cs of [] \<Rightarrow> [[c]] | w # ws \<Rightarrow> (c # w) # ws))"

text \<open>
  The class \<open>\d\<close> of a \<open>str\<close> pattern is the set of decimal digits of Unicode, and \<open>int\<close> reads
  each of them with its decimal value. In Unicode 14 the decimal digits are 66 blocks of ten
  consecutive code points with the values 0 to 9; \<open>decimal_zeros\<close> lists the zero of each.
\<close>

definition decimal_zeros :: "nat list" where
  "decimal_zeros =
     [0x30, 0x660, 0x6F0, 0x7C0, 0x966, 0x9E6, 0xA66, 0xAE6, 0xB66, 0xBE6, 0xC66, 0xCE6, 0xD66,
      0xDE6, 0xE50, 0xED0, 0xF20, 0x1040, 0x1090, 0x17E0, 0x1810, 0x1946, 0x19D0, 0x1A80, 0x1A90,
      0x1B50, 0x1BB0, 0x1C40, 0x1C50, 0xA620, 0xA8D0, 0xA900, 0xA9D0, 0xA9F0, 0xAA50, 0xABF0,
      0xFF10, 0x104A0, 0x10D30, 0x11066, 0x110F0, 0x11136, 0x111D0, 0x112F0, 0x11450, 0x114D0,
      0x11650, 0x116C0, 0x11730, 0x118E0, 0x11950, 0x11C50, 0x11D50, 0x11DA0, 0x16A60, 0x16AC0,
      0x16B50, 0x1D7CE, 0x1D7D8, 0x1D7E2, 0x1D7EC, 0x1D7F6, 0x1E140, 0x1E2F0, 0x1E950, 0x1FBF0]"

definition decimal_value :: "nat \<Rightarrow> nat option" where
  "decimal_value c = map_option (\<lambda>z. c - z) (find (\<lambda>z. z \<le> c \<and> c < z + 10) decimal_zeros)"

definition is_digit :: "nat \<Rightarrow> bool" where
  "is_digit c = (decimal_value c \<noteq> None)"

text \<open>
  \<open>int(s)\<close> on a string of decimal digits. CPython refuses a string of more than
  \<open>sys.int_info.default_max_str_digits = 4300\<close> digits with \<open>ValueError\<close>; nothing in the script
  catches it.
\<close>

definition int_max_str_digits :: nat where
  "int_max_str_digits = 4300"

definition digits_value :: "ustring \<Rightarrow> int" where
  "digits_value ds = foldl (\<lambda>a d. 10 * a + int (the (decimal_value d))) 0 ds"

definition py_int :: "ustring \<Rightarrow> error + int" where
  "py_int ds = (if length ds > int_max_str_digits then Inl ValueError else Inr (digits_value ds))"

text \<open>
  \<open>verse_pattern = re.compile(r'(\d+):(\d+)')\<close> and \<open>verse_pattern.search(line)\<close>: the leftmost
  position where a maximal run of digits is followed by a colon and a digit; the two groups are
  the maximal runs of digits on both sides of the colon. (A shorter first group never helps: the
  code point after it would be a digit and not the colon.)
\<close>

definition verse_match_at :: "ustring \<Rightarrow> (ustring \<times> ustring) option" where
  "verse_match_at s =
     (let g1 = takeWhile is_digit s; r = dropWhile is_digit s in
      if g1 = [] then None
      else (case r of
              [] \<Rightarrow> None
            | c # r' \<Rightarrow>
                if c = 0x3A
                then (let g2 = takeWhile is_digit r' in if g2 = [] then None else Some (g1, g2))
                else None))"

fun verse_search :: "ustring \<Rightarrow> (ustring \<times> ustring) option" where
  "verse_search [] = None"
| "verse_search (c # cs) =
     (case verse_match_at (c # cs) of Some m \<Rightarrow> Some m | None \<Rightarrow> verse_search cs)"

text \<open>
  \<open>re.search(pattern, line, re.IGNORECASE)\<close> for a pattern that is an alternative of literal
  words. \<open>ci_match p c\<close>: the code point \<open>c\<close> of the line matches the lower-case pattern letter
  \<open>p\<close>. A code point matches itself; an ASCII lower-case letter also matches its upper-case
  letter; \<open>i\<close> also matches U+0130 and U+0131, \<open>s\<close> matches U+017F and \<open>k\<close> matches U+212A. The
  Hebrew letters have no case.
\<close>

definition ci_match :: "nat \<Rightarrow> nat \<Rightarrow> bool" where
  "ci_match p c =
     (c = p \<or> (0x61 \<le> p \<and> p \<le> 0x7A \<and> c + 0x20 = p)
      \<or> (p = 0x69 \<and> (c = 0x130 \<or> c = 0x131)) \<or> (p = 0x73 \<and> c = 0x17F)
      \<or> (p = 0x6B \<and> c = 0x212A))"

fun prefix_ci :: "ustring \<Rightarrow> ustring \<Rightarrow> bool" where
  "prefix_ci [] s = True"
| "prefix_ci (p # ps) [] = False"
| "prefix_ci (p # ps) (c # cs) = (ci_match p c \<and> prefix_ci ps cs)"

fun search_ci :: "ustring \<Rightarrow> ustring \<Rightarrow> bool" where
  "search_ci p [] = prefix_ci p []"
| "search_ci p (c # cs) = (prefix_ci p (c # cs) \<or> search_ci p cs)"

text \<open>\<open>book_patterns\<close>: the alternatives of each pattern, and the book id.\<close>

definition book_patterns :: "(ustring list \<times> ustring) list" where
  "book_patterns =
     [([ascii ''genesis'', [1489, 1512, 1488, 1513, 1497, 1514]], ascii ''genesis''),
      ([ascii ''exodus'', [1513, 1502, 1493, 1514]], ascii ''exodus''),
      ([ascii ''leviticus'', [1493, 1497, 1511, 1512, 1488]], ascii ''leviticus''),
      ([ascii ''numbers'', [1489, 1502, 1491, 1489, 1512]], ascii ''numbers''),
      ([ascii ''deuteronomy'', [1491, 1489, 1512, 1497, 1501]], ascii ''deuteronomy'')]"

text \<open>The inner loop with its \<open>break\<close>: the book id of the first pattern found in the line.\<close>

definition match_book :: "ustring \<Rightarrow> ustring option" where
  "match_book line =
     map_option snd (find (\<lambda>(alts, book_id). list_ex (\<lambda>a. search_ci a line) alts) book_patterns)"

text \<open>\<open>str(n)\<close> for an integer, as the f-string of the key formats it.\<close>

fun str_nat :: "nat \<Rightarrow> ustring" where
  "str_nat n = (if n < 10 then [0x30 + n] else str_nat (n div 10) @ [0x30 + n mod 10])"

declare str_nat.simps [simp del]

definition str_int :: "int \<Rightarrow> ustring" where
  "str_int i = (if i < 0 then 0x2D # str_nat (nat (- i)) else str_nat (nat i))"

definition verse_key :: "ustring \<Rightarrow> int \<Rightarrow> int \<Rightarrow> ustring" where
  "verse_key book ch vs = book @ [0x2D] @ str_int ch @ [0x2D] @ str_int vs"

text \<open>The variables of the loop of \<open>parse_verses_from_text\<close>; \<open>parsed_verses\<close> is the dict \<open>verses\<close>.\<close>

record locator =
  current_book :: ustring
  current_chapter :: int
  current_verse :: int
  parsed_verses :: "ustring \<rightharpoonup> ustring"

definition initial_locator :: locator where
  "initial_locator =
     \<lparr>current_book = ascii ''genesis'', current_chapter = 1, current_verse = 0,
      parsed_verses = Map.empty\<rparr>"

text \<open>The check for book headers.\<close>

definition book_header :: "locator \<Rightarrow> ustring \<Rightarrow> locator" where
  "book_header st line =
     (case match_book line of
        Some book_id \<Rightarrow> st\<lparr>current_book := book_id, current_chapter := 1, current_verse := 0\<rparr>
      | None \<Rightarrow> st)"

text \<open>The check for chapter:verse references; \<open>int\<close> may raise.\<close>

definition verse_reference :: "locator \<Rightarrow> ustring \<Rightarrow> error + locator" where
  "verse_reference st line =
     (case verse_search line of
        None \<Rightarrow> Inr st
      | Some (g1, g2) \<Rightarrow>
          (case py_int g1 of
             Inl e \<Rightarrow> Inl e
           | Inr c \<Rightarrow>
               (case py_int g2 of
                  Inl e \<Rightarrow> Inl e
                | Inr v \<Rightarrow> Inr (st\<lparr>current_chapter := c, current_verse := v\<rparr>))))"

text \<open>The extraction of the Hebrew of the line into the dict.\<close>

definition collect_hebrew :: "locator \<Rightarrow> ustring \<Rightarrow> locator" where
  "collect_hebrew st line =
     (let hebrew_in_line = findall_class bhs_hebrew_cp line in
      if hebrew_in_line \<noteq> [] \<and> current_verse st > 0
      then (let key = verse_key (current_book st) (current_chapter st) (current_verse st);
                hebrew_text = join [0x20] hebrew_in_line in
            (case parsed_verses st key of
               None \<Rightarrow> st\<lparr>parsed_verses := (parsed_verses st)(key \<mapsto> hebrew_text)\<rparr>
             | Some old \<Rightarrow>
                 st\<lparr>parsed_verses := (parsed_verses st)(key \<mapsto> old @ [0x20] @ hebrew_text)\<rparr>))
      else st)"

text \<open>One iteration of \<open>for line in lines\<close>, and the loop.\<close>

definition locate_line :: "locator \<Rightarrow> ustring \<Rightarrow> error + locator" where
  "locate_line st line =
     (case verse_reference (book_header st line) line of
        Inl e \<Rightarrow> Inl e
      | Inr st2 \<Rightarrow> Inr (collect_hebrew st2 line))"

fun locate_lines :: "locator \<Rightarrow> ustring list \<Rightarrow> error + locator" where
  "locate_lines st [] = Inr st"
| "locate_lines st (line # lines) =
     (case locate_line st line of Inl e \<Rightarrow> Inl e | Inr st' \<Rightarrow> locate_lines st' lines)"

definition parse_lines :: "ustring list \<Rightarrow> error + (ustring \<rightharpoonup> ustring)" where
  "parse_lines lines = map_sum id parsed_verses (locate_lines initial_locator lines)"

definition parse_verses_from_text :: "ustring \<Rightarrow> error + (ustring \<rightharpoonup> ustring)" where
  "parse_verses_from_text text = parse_lines (split_on 0x0A text)"

text \<open>The chapter and verse of a state of the scan.\<close>

definition position :: "locator \<Rightarrow> int \<times> int" where
  "position st = (current_chapter st, current_verse st)"

section \<open>verify\_ocr\_accuracy.py\<close>

text \<open>The module's \<open>HEBREW_PATTERN\<close>; its \<open>GREEK_PATTERN\<close> has the class \<open>greek_cp\<close>.\<close>

definition verify_hebrew_cp :: "nat \<Rightarrow> bool" where
  "verify_hebrew_cp c = ((0x0590 \<le> c \<and> c \<le> 0x05FF) \<or> (0xFB1D \<le> c \<and> c \<le> 0xFB4F))"

text \<open>
  The white space of \<open>str.split\<close>, \<open>str.strip\<close> and of the class \<open>\s\<close> of a \<open>str\<close> pattern: the
  29 code points for which \<open>str.isspace\<close> holds.
\<close>

definition py_isspace :: "nat \<Rightarrow> bool" where
  "py_isspace c =
     ((0x09 \<le> c \<and> c \<le> 0x0D) \<or> (0x1C \<le> c \<and> c \<le> 0x20) \<or> c = 0x85 \<or> c = 0xA0
      \<or> c = 0x1680 \<or> (0x2000 \<le> c \<and> c \<le> 0x200A) \<or> c = 0x2028 \<or> c = 0x2029
      \<or> c = 0x202F \<or> c = 0x205F \<or> c = 0x3000)"

text \<open>
  \<open>re.sub(r'\s+', ' ', text)\<close>: every maximal run of white space becomes one space. The flag
  says that the code point before was white space.
\<close>

fun collapse_space :: "bool \<Rightarrow> ustring \<Rightarrow> ustring" where
  "collapse_space in_run [] = []"
| "collapse_space in_run (c # cs) =
     (if py_isspace c then (if in_run then collapse_space True cs else 0x20 # collapse_space True cs)
      else c # collapse_space False cs)"

text \<open>\<open>text.strip()\<close> and \<open>text.split()\<close>.\<close>

definition py_strip :: "ustring \<Rightarrow> ustring" where
  "py_strip s = rev (dropWhile py_isspace (rev (dropWhile py_isspace s)))"

definition py_split :: "ustring \<Rightarrow> ustring list" where
  "py_split s = findall_class (\<lambda>c. \<not> py_isspace c) s"

definition normalize_text :: "ustring \<Rightarrow> ustring" where
  "normalize_text text =
     (let text1 = filter (\<lambda>c. \<not> (0x0591 \<le> c \<and> c \<le> 0x05C7)) text;
          text2 = filter (\<lambda>c. \<not> (0x0300 \<le> c \<and> c \<le> 0x036F)) text1;
          text3 = collapse_space False text2
      in py_strip text3)"

text \<open>
  \<open>SequenceMatcher(None, a, b).ratio()\<close> is a function of the standard library \<open>difflib\<close>, not
  of this repository; it is the parameter \<open>ratio\<close> of the two functions that call it. Its
  result is a Python float, modelled as a real.
\<close>

definition calculate_similarity :: "(ustring \<Rightarrow> ustring \<Rightarrow> real) \<Rightarrow> ustring \<Rightarrow> ustring \<Rightarrow> real" where
  "calculate_similarity ratio text1 text2 =
     (if text1 = [] \<or> text2 = [] then 0
      else ratio (normalize_text text1) (normalize_text text2))"

text \<open>
  \<open>find_verse_in_ocr(ocr_text, verified_text, pattern)\<close> returns
  \<open>(found, similarity, best_match)\<close>. \<open>pattern\<close> is one of the two patterns above, given by its
  character class. \<open>ocr_text\<close> is the string that \<open>verify_ocr_accuracy\<close> builds; \<open>verified_text\<close>
  is a value of the JSON file of verified verses, and \<open>verified_text in ocr_combined\<close> raises
  \<open>TypeError\<close> when it is not a string.
\<close>

definition find_verse_in_ocr ::
  "(ustring \<Rightarrow> ustring \<Rightarrow> real) \<Rightarrow> (nat \<Rightarrow> bool) \<Rightarrow> ustring \<Rightarrow> pyobj
     \<Rightarrow> error + (bool \<times> real \<times> ustring)" where
  "find_verse_in_ocr ratio pattern ocr_text verified =
     (let ocr_segments = findall_class pattern ocr_text;
          ocr_combined = join [0x20] ocr_segments
      in if \<not> is_str verified then Inl TypeError
         else (let verified_text = str_of verified in
               if is_substr verified_text ocr_combined then Inr (True, 1, verified_text)
               else (let verified_words = py_split verified_text in
                     if verified_words = [] then Inr (False, 0, [])
                     else (let first_word = hd verified_words in
                           if is_substr first_word ocr_combined
                           then (let similarity =
                                       calculate_similarity ratio verified_text ocr_combined
                                 in Inr (True, similarity, first_word))
                           else (let similarity =
                                       calculate_similarity ratio verified_text ocr_combined
                                 in Inr (similarity > 5 / 10, similarity, []))))))"

section \<open>extract\_scriptures\_ocr.py\<close>



subsection \<open>preprocess\_image\<close>




subsection \<open>test\_ocr\_configs\<close>















section \<open>Properties of the language detector\<close>

subsection \<open>The passage table\<close>

lemma ascii_simps:
  "ascii ''daniel'' = [100, 97, 110, 105, 101, 108]"
  "ascii ''ezra'' = [101, 122, 114, 97]"
  "ascii ''jeremiah'' = [106, 101, 114, 101, 109, 105, 97, 104]"
  "ascii ''genesis'' = [103, 101, 110, 101, 115, 105, 115]"
  by (simp_all add: ascii_def)

lemma passages_cases:
  assumes "ARAMAIC_PASSAGES k = Some info"
  shows "info = daniel_info \<or> info = ezra_info \<or> info = jeremiah_info \<or> info = genesis_info"
  using assms by (auto simp: ARAMAIC_PASSAGES_def split: if_splits)

lemma set_py_range: "set (py_range a b) = {a..<b}"
  by (auto simp: py_range_def)

lemma ezra_verses:
  "(c, v) \<in> verses ezra_info \<longleftrightarrow>
     (c = 4 \<and> 8 \<le> v \<and> v \<le> 24) \<or> (c = 5 \<and> 1 \<le> v \<and> v \<le> 17)
     \<or> (c = 6 \<and> 1 \<le> v \<and> v \<le> 18) \<or> (c = 7 \<and> 12 \<le> v \<and> v \<le> 26)"
  by (auto simp: ezra_info_def set_py_range)

lemma daniel_ranges:
  "in_chapter_ranges (chapters daniel_info) c v = (\<exists>r \<in> set (chapters daniel_info). spec_in_range r c v)"
  by (auto simp: daniel_info_def spec_in_range_def)

lemma other_chapters:
  "chapters ezra_info = []" "chapters jeremiah_info = []" "chapters genesis_info = []"
  by (simp_all add: ezra_info_def jeremiah_info_def genesis_info_def)

lemma info_ranges:
  assumes "ARAMAIC_PASSAGES k = Some info"
  shows "in_chapter_ranges (chapters info) c v = (\<exists>r \<in> set (chapters info). spec_in_range r c v)"
  using passages_cases [OF assms] daniel_ranges other_chapters by auto

lemma book_key_ascii:
  "book_key (ascii ''daniel'') = ascii ''daniel''"
  "book_key (ascii ''ezra'') = ascii ''ezra''"
  "book_key (ascii ''genesis'') = ascii ''genesis''"
  by (simp_all add: book_key_def ascii_def py_lower_def lower_cp_def book_map_def)

lemma passages_lookup:
  "ARAMAIC_PASSAGES (ascii ''daniel'') = Some daniel_info"
  "ARAMAIC_PASSAGES (ascii ''ezra'') = Some ezra_info"
  "ARAMAIC_PASSAGES (ascii ''genesis'') = Some genesis_info"
  by (simp_all add: ARAMAIC_PASSAGES_def ascii_def)

lemma is_aramaic_passage_unfold: "is_aramaic_passage book ch vs =
        (case ARAMAIC_PASSAGES (book_key book) of
           None \<Rightarrow> False
         | Some info \<Rightarrow> (ch, vs) \<in> verses info
                        \<or> (\<exists>r \<in> set (chapters info). spec_in_range r ch vs))"
proof (cases "ARAMAIC_PASSAGES (book_key book)")
  case None
  then show ?thesis by (simp add: is_aramaic_passage_def)
next
  case (Some info)
  have "in_chapter_ranges (chapters info) ch vs = (\<exists>r \<in> set (chapters info). spec_in_range r ch vs)"
    using Some by (rule info_ranges)
  then show ?thesis using Some by (simp add: is_aramaic_passage_def)
qed

lemma ezra_boundary: "is_aramaic_passage (ascii ''ezra'') 4 8 \<and> \<not> is_aramaic_passage (ascii ''ezra'') 4 7"
  by (simp add: is_aramaic_passage_def book_key_ascii passages_lookup ezra_verses other_chapters)

lemma genesis_boundary: "is_aramaic_passage (ascii ''genesis'') 31 47 \<and> \<not> is_aramaic_passage (ascii ''genesis'') 31 46"
  by (simp add: is_aramaic_passage_def book_key_ascii passages_lookup other_chapters genesis_info_def)

text \<open>
  C2. For every book, chapter and verse (in particular for chapter and verse at least 1),
  \<open>is_aramaic_passage\<close> is true exactly when the pair (chapter, verse) is in the verse
  set of the book's table entry, or falls inside one of its chapter ranges under the
  rule of the specification. Ezra 4:8 and Genesis 31:47 are Aramaic passages, Ezra 4:7
  and Genesis 31:46 are not.
\<close>

theorem is_aramaic_passage_rule:
  "(\<forall>book chapter verse.
      is_aramaic_passage book chapter verse =
        (case ARAMAIC_PASSAGES (book_key book) of
           None \<Rightarrow> False
         | Some info \<Rightarrow> (chapter, verse) \<in> verses info
                        \<or> (\<exists>r \<in> set (chapters info). spec_in_range r chapter verse)))
   \<and> is_aramaic_passage (ascii ''ezra'') 4 8 \<and> \<not> is_aramaic_passage (ascii ''ezra'') 4 7
   \<and> is_aramaic_passage (ascii ''genesis'') 31 47 \<and> \<not> is_aramaic_passage (ascii ''genesis'') 31 46"
proof (intro conjI allI)
  show "is_aramaic_passage (ascii ''ezra'') 4 8" using ezra_boundary by (rule conjunct1)
  show "\<not> is_aramaic_passage (ascii ''ezra'') 4 7" using ezra_boundary by (rule conjunct2)
  show "is_aramaic_passage (ascii ''genesis'') 31 47" using genesis_boundary by (rule conjunct1)
  show "\<not> is_aramaic_passage (ascii ''genesis'') 31 46" using genesis_boundary by (rule conjunct2)
qed (rule is_aramaic_passage_unfold)


lemma daniel_key: "book_key (ascii ''Daniel'') = ascii ''daniel''"
  by (simp add: book_key_def ascii_def py_lower_def lower_cp_def book_map_def)

theorem is_aramaic_passage_rule_witness:
  "is_aramaic_passage (ascii ''Daniel'') 3 1 \<and> \<not> is_aramaic_passage (ascii ''Daniel'') 2 3"
  by (simp add: is_aramaic_passage_rule [THEN conjunct1, rule_format] daniel_key passages_lookup
        daniel_info_def spec_in_range_def)

subsection \<open>Degenerate input and exceptions\<close>

lemma in_chapter_ranges_dyn_int:
  "in_chapter_ranges_dyn rs (PyInt c) (PyInt v) = Inr (in_chapter_ranges rs c v)"
  by (induction rs c v rule: in_chapter_ranges.induct) (auto simp: py_ge_def py_le_def)

lemma is_aramaic_passage_dyn_int:
  "is_aramaic_passage_dyn (PyStr b) (PyInt c) (PyInt v) = Inr (is_aramaic_passage b c v)"
  by (simp add: is_aramaic_passage_dyn_def is_aramaic_passage_def in_chapter_ranges_dyn_int
        split: option.splits)

lemma detect_text_decide:
  "detect_text s book ch vs =
     decide_language s
       (hints_given book ch vs \<and> is_aramaic_passage (the book) (the ch) (the vs))"
  by (simp add: detect_text_def decide_language_def Let_def split_beta)

lemma truthy_hints:
  "(truthy (hint_str book) \<and> truthy (hint_int ch) \<and> truthy (hint_int vs)) = hints_given book ch vs"
  by (simp add: hint_str_def hint_int_def hints_given_def split: option.splits)

lemma detect_language_dyn_typed:
  "detect_language_dyn (Builtin (PyStr s)) (hint_str book) (hint_int ch) (hint_int vs) =
     Inr (detect_language (PyStr s) book ch vs)"
proof (cases "hints_given book ch vs")
  case True
  then obtain b c v where h: "book = Some b" "ch = Some c" "vs = Some v"
    by (auto simp: hints_given_def split: option.splits)
  have "is_aramaic_passage_dyn (hint_str book) (hint_int ch) (hint_int vs) =
          Inr (is_aramaic_passage (the book) (the ch) (the vs))"
    by (simp add: h hint_str_def hint_int_def is_aramaic_passage_dyn_int)
  then show ?thesis
    using True
    by (simp add: detect_language_dyn_def detect_language_def detect_text_decide truthy_hints)
next
  case False
  then show ?thesis
    by (simp add: detect_language_dyn_def detect_language_def detect_text_decide truthy_hints)
qed

lemma detect_language_dyn_degenerate:
  "\<not> is_str x \<or> x = PyStr [] \<Longrightarrow> detect_language_dyn (Builtin x) book ch vs = Inr unknown_detection"
  by (cases x) (auto simp: detect_language_dyn_def)

lemma ascii_nonempty:
  "ascii ''daniel'' \<noteq> []" "ascii ''2'' \<noteq> []" "ascii ''4'' \<noteq> []"
  by (simp_all add: ascii_def)

lemma daniel_text_hints:
  "ARAMAIC_PASSAGES (book_key (ascii ''daniel'')) = Some daniel_info"
  "chapters daniel_info = [(2, 4, 7, 28)]"
  by (simp_all add: book_key_ascii passages_lookup daniel_info_def)

text \<open>
  C7. The claim ends with \<open>never raises for any input\<close>. The call does raise on a non-empty
  string with hints that are not of the annotated types: with the book \<open>5\<close> it raises
  \<open>AttributeError\<close> at \<open>book.lower()\<close>, and with the book \<open>'daniel'\<close> and the chapter \<open>'2'\<close>
  it raises \<open>TypeError\<close> at \<open>ch_start <= chapter\<close>. It also raises when the truth test of the
  text raises.
\<close>

theorem detect_language_raises:
  "detect_language_dyn (Builtin (PyStr [1488])) (PyInt 5) (PyInt 1) (PyInt 1) = Inl AttributeError
   \<and> detect_language_dyn (Builtin (PyStr [1488])) (PyStr (ascii ''daniel''))
         (PyStr (ascii ''2'')) (PyStr (ascii ''4'')) = Inl TypeError
   \<and> detect_language_dyn (Foreign (Inl ValueError)) PyNone PyNone PyNone = Inl ValueError"
  by (simp add: detect_language_dyn_def is_aramaic_passage_dyn_def daniel_text_hints ascii_nonempty)

text \<open>
  C7, amended. For every text that is the empty string, or a value of a built-in type other
  than \<open>str\<close>, or an instance of another class whose truth test returns, and whatever the
  hints are, \<open>detect_language\<close> returns the unknown result without raising: language unknown,
  confidence 0, no matches, the three counts 0, no Aramaic words, not a known passage. When
  the truth test of the text raises, the call raises the same exception. For every string and
  hints of the annotated types (\<open>book\<close> a string or \<open>None\<close>, \<open>chapter\<close> and \<open>verse\<close> integers
  or \<open>None\<close>) the call does not raise and returns the result of the typed model.
\<close>

theorem detect_language_degenerate:
  "(\<forall>x book chapter verse.
      (\<not> is_str x \<or> x = PyStr []) \<longrightarrow>
        detect_language_dyn (Builtin x) book chapter verse =
          Inr \<lparr>language = Unknown, confidence = 0, matches = [], hebrew_count = 0,
               greek_count = 0, aramaic_count = 0, aramaic_words = [],
               is_known_aramaic_passage = False\<rparr>)
   \<and> (\<forall>b book chapter verse.
        detect_language_dyn (Foreign (Inr b)) book chapter verse =
          Inr \<lparr>language = Unknown, confidence = 0, matches = [], hebrew_count = 0,
               greek_count = 0, aramaic_count = 0, aramaic_words = [],
               is_known_aramaic_passage = False\<rparr>)
   \<and> (\<forall>e book chapter verse. detect_language_dyn (Foreign (Inl e)) book chapter verse = Inl e)
   \<and> (\<forall>s book chapter verse.
        detect_language_dyn (Builtin (PyStr s)) (hint_str book) (hint_int chapter) (hint_int verse) =
          Inr (detect_language (PyStr s) book chapter verse))"
proof (intro conjI allI impI)
  fix x book ch vs
  assume "\<not> is_str x \<or> x = PyStr []"
  then show "detect_language_dyn (Builtin x) book ch vs =
          Inr \<lparr>language = Unknown, confidence = 0, matches = [], hebrew_count = 0,
               greek_count = 0, aramaic_count = 0, aramaic_words = [],
               is_known_aramaic_passage = False\<rparr>"
    by (simp add: detect_language_dyn_degenerate unknown_detection_def)
next
  fix b book ch vs
  show "detect_language_dyn (Foreign (Inr b)) book ch vs =
          Inr \<lparr>language = Unknown, confidence = 0, matches = [], hebrew_count = 0,
               greek_count = 0, aramaic_count = 0, aramaic_words = [],
               is_known_aramaic_passage = False\<rparr>"
    by (simp add: detect_language_dyn_def unknown_detection_def)
next
  fix e book ch vs
  show "detect_language_dyn (Foreign (Inl e)) book ch vs = Inl e"
    by (simp add: detect_language_dyn_def)
next
  fix s book ch vs
  show "detect_language_dyn (Builtin (PyStr s)) (hint_str book) (hint_int ch) (hint_int vs) =
          Inr (detect_language (PyStr s) book ch vs)"
    by (rule detect_language_dyn_typed)
qed

theorem detect_language_degenerate_witness:
  "detect_language_dyn (Builtin (PyInt 7)) (PyInt 5) (PyList []) (PyStr (ascii ''x'')) =
     Inr unknown_detection
   \<and> detect_language_dyn (Builtin PyNone) PyNone PyNone PyNone = Inr unknown_detection
   \<and> detect_language_dyn (Builtin (PyStr [])) (PyStr (ascii ''ezra'')) (PyInt 4) (PyInt 8) =
     Inr unknown_detection"
  using detect_language_degenerate [THEN conjunct1, rule_format, of "PyInt 7"]
        detect_language_degenerate [THEN conjunct1, rule_format, of "PyNone"]
        detect_language_degenerate [THEN conjunct1, rule_format, of "PyStr []"]
  by (simp add: unknown_detection_def)
subsection \<open>The decision chain\<close>

lemma findall_class_Nil [simp]: "findall_class P [] = []"
  by (simp add: findall_class_def)

lemma detect_language_str:
  "s \<noteq> [] \<Longrightarrow> detect_language (PyStr s) book ch vs = detect_text s book ch vs"
  by (simp add: detect_language_def)

lemma detect_text_known:
  "is_known_aramaic_passage (detect_text s book ch vs) =
     (hints_given book ch vs \<and> is_aramaic_passage (the book) (the ch) (the vs))"
  by (simp add: detect_text_def Let_def split_beta)

lemma detect_text_counts:
  "hebrew_count (detect_text s book ch vs) = length (findall_class hebrew_cp s)"
  "greek_count (detect_text s book ch vs) = length (findall_class greek_cp s)"
  by (simp_all add: detect_text_def Let_def split_beta)

lemma detect_text_rule1:
  assumes "is_known_aramaic_passage (detect_text s book ch vs)" "findall_class hebrew_cp s \<noteq> []"
  shows "language (detect_text s book ch vs) = Aramaic"
    and "matches (detect_text s book ch vs) = findall_class hebrew_cp s"
    and "confidence (detect_text s book ch vs) = 95 / 100"
    and "aramaic_count (detect_text s book ch vs) = length (findall_class hebrew_cp s)"
  using assms by (auto simp: detect_text_def Let_def split_beta split: if_splits)

lemma detect_text_aramaic_count:
  "aramaic_count (detect_text s book ch vs) =
     (if is_known_aramaic_passage (detect_text s book ch vs) \<and> findall_class hebrew_cp s \<noteq> []
      then length (findall_class hebrew_cp s)
      else if findall_class imperial_aramaic_cp s \<noteq> []
      then length (findall_class hebrew_cp s) + length (findall_class imperial_aramaic_cp s)
      else if fst (detect_aramaic_vocabulary s) \<and> findall_class hebrew_cp s \<noteq> []
              \<and> snd (snd (detect_aramaic_vocabulary s)) > 5 / 10
      then length (findall_class hebrew_cp s)
      else 0)"
  by (simp add: detect_text_def Let_def split_beta)

lemma detect_text_not_aramaic:
  "language (detect_text s book ch vs) \<noteq> Aramaic \<Longrightarrow> aramaic_count (detect_text s book ch vs) = 0"
  by (simp add: detect_text_def Let_def split_beta split: if_splits)


lemma book_key_Nil: "book_key [] = []"
  by (simp add: book_key_def py_lower_def book_map_def ascii_def)

lemma passages_Nil: "ARAMAIC_PASSAGES [] = None"
  by (simp add: ARAMAIC_PASSAGES_def ascii_def)

lemma aramaic_passage_book: "is_aramaic_passage book ch vs \<Longrightarrow> book \<noteq> []"
  by (auto simp: is_aramaic_passage_def book_key_Nil passages_Nil)

lemma info_chapter_zero:
  assumes "ARAMAIC_PASSAGES k = Some info"
  shows "(0, vs) \<notin> verses info \<and> \<not> in_chapter_ranges (chapters info) 0 vs"
  using passages_cases [OF assms]
  by (auto simp: ezra_verses daniel_info_def jeremiah_info_def genesis_info_def other_chapters)

lemma aramaic_passage_chapter: "is_aramaic_passage book ch vs \<Longrightarrow> ch \<noteq> 0"
  by (auto simp: is_aramaic_passage_def split: option.splits if_splits dest: info_chapter_zero)

lemma aramaic_passage_hints:
  assumes "is_aramaic_passage book ch vs" "vs \<noteq> 0"
  shows "hints_given (Some book) (Some ch) (Some vs)"
  using assms aramaic_passage_book [OF assms(1)] aramaic_passage_chapter [OF assms(1)]
  by (simp add: hints_given_def)

lemma known_passage_general:
  assumes h: "findall_class hebrew_cp s \<noteq> []" and p: "is_aramaic_passage book ch vs" and v: "vs \<noteq> 0"
  shows "language (detect_language (PyStr s) (Some book) (Some ch) (Some vs)) = Aramaic
       \<and> matches (detect_language (PyStr s) (Some book) (Some ch) (Some vs)) = findall_class hebrew_cp s
       \<and> confidence (detect_language (PyStr s) (Some book) (Some ch) (Some vs)) = 95 / 100
       \<and> is_known_aramaic_passage (detect_language (PyStr s) (Some book) (Some ch) (Some vs))"
proof -
  have ne: "s \<noteq> []" using h by auto
  have k: "is_known_aramaic_passage (detect_text s (Some book) (Some ch) (Some vs))"
    using aramaic_passage_hints [OF p v] p by (simp add: detect_text_known)
  show ?thesis
    using detect_text_rule1 [OF k h] k by (simp add: detect_language_str [OF ne])
qed

lemma daniel_hebrew_runs:
  "findall_class hebrew_cp daniel_2_4_text =
     [[1502, 1463, 1500, 1456, 1499, 1464, 1468, 1488],
      [1500, 1456, 1506, 1464, 1500, 1456, 1502, 1460, 1497, 1503],
      [1495, 1457, 1497, 1460, 1497]]"
  by (simp add: findall_class_def daniel_2_4_text_def hebrew_cp_def)

lemma daniel_2_4: "is_aramaic_passage (ascii ''daniel'') 2 4"
  by (simp add: is_aramaic_passage_def book_key_ascii passages_lookup daniel_info_def)


text \<open>
  C1. For every text with at least one run of Hebrew-block code points and hints (book,
  chapter, verse) that name a known Aramaic passage, \<open>detect_language\<close> returns language
  Aramaic, the list of Hebrew-script runs as matches, and confidence exactly 0.95. (A
  verse hint of 0 counts as no hint in \<open>if book and chapter and verse\<close>; verse numbers
  start at 1.) For the text of Daniel 2:4 with hints daniel, 2, 4 the passage is known,
  the language is Aramaic and the confidence is 0.95.
\<close>

theorem known_passage_is_aramaic:
  "(\<forall>s book chapter verse.
      findall_class hebrew_cp s \<noteq> [] \<and> is_aramaic_passage book chapter verse \<and> verse \<noteq> 0 \<longrightarrow>
        language (detect_language (PyStr s) (Some book) (Some chapter) (Some verse)) = Aramaic
        \<and> matches (detect_language (PyStr s) (Some book) (Some chapter) (Some verse))
            = findall_class hebrew_cp s
        \<and> confidence (detect_language (PyStr s) (Some book) (Some chapter) (Some verse)) = 95 / 100
        \<and> is_known_aramaic_passage
             (detect_language (PyStr s) (Some book) (Some chapter) (Some verse)))
   \<and> is_known_aramaic_passage
        (detect_language (PyStr daniel_2_4_text) (Some (ascii ''daniel'')) (Some 2) (Some 4))
   \<and> language (detect_language (PyStr daniel_2_4_text) (Some (ascii ''daniel'')) (Some 2) (Some 4))
        = Aramaic
   \<and> confidence (detect_language (PyStr daniel_2_4_text) (Some (ascii ''daniel'')) (Some 2) (Some 4))
        = 95 / 100"
proof -
  have d: "findall_class hebrew_cp daniel_2_4_text \<noteq> []"
    by (simp add: daniel_hebrew_runs)
  have v: "(4::int) \<noteq> 0" by simp
  note dan = known_passage_general [OF d daniel_2_4 v]
  show ?thesis
  proof (intro conjI allI impI)
    fix s book ch vs
    assume a: "findall_class hebrew_cp s \<noteq> [] \<and> is_aramaic_passage book ch vs \<and> vs \<noteq> 0"
    then have g: "language (detect_language (PyStr s) (Some book) (Some ch) (Some vs)) = Aramaic
       \<and> matches (detect_language (PyStr s) (Some book) (Some ch) (Some vs)) = findall_class hebrew_cp s
       \<and> confidence (detect_language (PyStr s) (Some book) (Some ch) (Some vs)) = 95 / 100
       \<and> is_known_aramaic_passage (detect_language (PyStr s) (Some book) (Some ch) (Some vs))"
      by (intro known_passage_general) simp_all
    from g show "language (detect_language (PyStr s) (Some book) (Some ch) (Some vs)) = Aramaic"
      by simp
    from g show "matches (detect_language (PyStr s) (Some book) (Some ch) (Some vs))
        = findall_class hebrew_cp s" by simp
    from g show "confidence (detect_language (PyStr s) (Some book) (Some ch) (Some vs)) = 95 / 100"
      by simp
    from g show "is_known_aramaic_passage (detect_language (PyStr s) (Some book) (Some ch) (Some vs))"
      by simp
  qed (use dan in simp_all)
qed

lemma ezra_4_8_runs: "findall_class hebrew_cp [1512, 1495, 1493, 1501] = [[1512, 1495, 1493, 1501]]"
  by (simp add: findall_class_def hebrew_cp_def)

theorem known_passage_is_aramaic_witness:
  "language (detect_language (PyStr [1512, 1495, 1493, 1501]) (Some (ascii ''ezra'')) (Some 4) (Some 8))
     = Aramaic
   \<and> matches (detect_language (PyStr [1512, 1495, 1493, 1501]) (Some (ascii ''ezra'')) (Some 4) (Some 8))
     = [[1512, 1495, 1493, 1501]]
   \<and> confidence (detect_language (PyStr [1512, 1495, 1493, 1501]) (Some (ascii ''ezra'')) (Some 4) (Some 8))
     = 95 / 100"
  using known_passage_is_aramaic [THEN conjunct1, rule_format,
      of "[1512, 1495, 1493, 1501]" "ascii ''ezra''" 4 8]
    ezra_boundary
  by (simp add: ezra_4_8_runs)

subsection \<open>The Aramaic count\<close>


lemma detect_language_not_aramaic:
  "language (detect_language x book ch vs) \<noteq> Aramaic \<Longrightarrow>
   aramaic_count (detect_language x book ch vs) = 0"
  by (cases "\<not> truthy x \<or> \<not> is_str x")
     (auto simp: detect_language_def unknown_detection_def dest: detect_text_not_aramaic)

lemma daniel_3_1: "is_aramaic_passage (ascii ''daniel'') 3 1"
  by (simp add: is_aramaic_passage_def book_key_ascii passages_lookup daniel_info_def)

lemma greek_example_runs:
  "findall_class hebrew_cp [945, 946] = []"
  "findall_class greek_cp [945, 946] = [[945, 946]]"
  "findall_class imperial_aramaic_cp [945, 946] = []"
  by (simp_all add: findall_class_def hebrew_cp_def greek_cp_def imperial_aramaic_cp_def)

lemma mixed_example_runs:
  "findall_class hebrew_cp [1488, 32, 67648] = [[1488]]"
  "findall_class greek_cp [1488, 32, 67648] = []"
  "findall_class imperial_aramaic_cp [1488, 32, 67648] = [[67648]]"
  by (simp_all add: findall_class_def hebrew_cp_def greek_cp_def imperial_aramaic_cp_def)

lemma daniel_3_1_hints: "hints_given (Some (ascii ''daniel'')) (Some 3) (Some 1)"
  by (simp add: hints_given_def ascii_def)

lemma greek_in_daniel:
  "is_known_aramaic_passage (detect_language (PyStr [945, 946]) (Some (ascii ''daniel'')) (Some 3) (Some 1))
   \<and> language (detect_language (PyStr [945, 946]) (Some (ascii ''daniel'')) (Some 3) (Some 1)) = Greek
   \<and> aramaic_count (detect_language (PyStr [945, 946]) (Some (ascii ''daniel'')) (Some 3) (Some 1)) = 0"
  by (simp add: detect_language_def detect_text_def Let_def split_beta greek_example_runs
        daniel_3_1_hints daniel_3_1)

lemma mixed_no_hints:
  "aramaic_count (detect_language (PyStr [1488, 32, 67648]) None None None) = 2
   \<and> length (findall_class imperial_aramaic_cp [1488, 32, 67648]) = 1"
  by (simp add: detect_language_def detect_text_aramaic_count detect_text_known hints_given_def
        mixed_example_runs)

lemma mixed_in_daniel:
  "aramaic_count (detect_language (PyStr [1488, 32, 67648]) (Some (ascii ''daniel'')) (Some 3) (Some 1)) = 1"
  by (simp add: detect_language_def detect_text_aramaic_count detect_text_known daniel_3_1_hints
        daniel_3_1 mixed_example_runs)

text \<open>
  Claim C10. The field \<open>aramaic_count\<close> of the result of \<open>detect_language\<close> is not an
  independent count of Imperial Aramaic runs of the text. For every input, a result whose language
  is not Aramaic has \<open>aramaic_count = 0\<close>, also when the hints name a known Aramaic passage. For
  every non-empty string, \<open>hebrew_count\<close> is the number of Hebrew-script runs, and
  \<open>aramaic_count\<close> is: the number of Hebrew-script runs when the known-passage rule fires
  (hints given, passage known, at least one Hebrew run); otherwise the number of Hebrew-script runs
  plus the number of Imperial Aramaic runs when the text has an Imperial Aramaic run; otherwise the
  number of Hebrew-script runs when the vocabulary rule fires (a vocabulary word occurs, at least
  one Hebrew run, vocabulary confidence above 0.5); otherwise 0. Three examples: Greek text with
  the hints Daniel 3:1 is Greek with count 0 in a known passage; the text of one Hebrew letter, a
  space and one Imperial Aramaic letter has count 2 without hints, although it has one Imperial
  Aramaic run, and count 1 with the hints Daniel 3:1.
\<close>

theorem aramaic_count_characterisation:
  "(\<forall>x book chapter verse.
      language (detect_language x book chapter verse) \<noteq> Aramaic \<longrightarrow>
      aramaic_count (detect_language x book chapter verse) = 0)
   \<and> (\<forall>s book chapter verse. s \<noteq> [] \<longrightarrow>
      hebrew_count (detect_language (PyStr s) book chapter verse) = length (findall_class hebrew_cp s)
      \<and> aramaic_count (detect_language (PyStr s) book chapter verse) =
        (if hints_given book chapter verse
            \<and> is_aramaic_passage (the book) (the chapter) (the verse)
            \<and> findall_class hebrew_cp s \<noteq> []
         then length (findall_class hebrew_cp s)
         else if findall_class imperial_aramaic_cp s \<noteq> []
         then length (findall_class hebrew_cp s) + length (findall_class imperial_aramaic_cp s)
         else if fst (detect_aramaic_vocabulary s) \<and> findall_class hebrew_cp s \<noteq> []
                 \<and> snd (snd (detect_aramaic_vocabulary s)) > 5 / 10
         then length (findall_class hebrew_cp s)
         else 0))
   \<and> (is_known_aramaic_passage
        (detect_language (PyStr [945, 946]) (Some (ascii ''daniel'')) (Some 3) (Some 1))
      \<and> language (detect_language (PyStr [945, 946]) (Some (ascii ''daniel'')) (Some 3) (Some 1))
          = Greek
      \<and> aramaic_count
          (detect_language (PyStr [945, 946]) (Some (ascii ''daniel'')) (Some 3) (Some 1)) = 0)
   \<and> (aramaic_count (detect_language (PyStr [1488, 32, 67648]) None None None) = 2
      \<and> length (findall_class imperial_aramaic_cp [1488, 32, 67648]) = 1)
   \<and> aramaic_count
        (detect_language (PyStr [1488, 32, 67648]) (Some (ascii ''daniel'')) (Some 3) (Some 1)) = 1"
proof (intro conjI allI impI)
  fix x book ch vs
  assume "language (detect_language x book ch vs) \<noteq> Aramaic"
  then show "aramaic_count (detect_language x book ch vs) = 0"
    by (rule detect_language_not_aramaic)
next
  fix s :: ustring and book ch vs
  assume "s \<noteq> []"
  then show "hebrew_count (detect_language (PyStr s) book ch vs) = length (findall_class hebrew_cp s)"
    by (simp add: detect_language_str detect_text_counts)
next
  fix s :: ustring and book ch vs
  assume "s \<noteq> []"
  then show "aramaic_count (detect_language (PyStr s) book ch vs) =
        (if hints_given book ch vs
            \<and> is_aramaic_passage (the book) (the ch) (the vs)
            \<and> findall_class hebrew_cp s \<noteq> []
         then length (findall_class hebrew_cp s)
         else if findall_class imperial_aramaic_cp s \<noteq> []
         then length (findall_class hebrew_cp s) + length (findall_class imperial_aramaic_cp s)
         else if fst (detect_aramaic_vocabulary s) \<and> findall_class hebrew_cp s \<noteq> []
                 \<and> snd (snd (detect_aramaic_vocabulary s)) > 5 / 10
         then length (findall_class hebrew_cp s)
         else 0)"
    by (simp add: detect_language_str detect_text_aramaic_count detect_text_known)
qed (simp_all add: greek_in_daniel mixed_no_hints mixed_in_daniel)

lemma shalom_runs:
  "findall_class hebrew_cp [1513, 1500, 1493, 1501] = [[1513, 1500, 1493, 1501]]"
  "findall_class greek_cp [1513, 1500, 1493, 1501] = []"
  "findall_class imperial_aramaic_cp [1513, 1500, 1493, 1501] = []"
  by (simp_all add: findall_class_def hebrew_cp_def greek_cp_def imperial_aramaic_cp_def)

lemma shalom_vocabulary: "\<not> fst (detect_aramaic_vocabulary [1513, 1500, 1493, 1501])"
  by (simp add: detect_aramaic_vocabulary_def ARAMAIC_VOCABULARY_def Let_def)

lemma shalom_language:
  "language (detect_language (PyStr [1513, 1500, 1493, 1501]) None None None) = Hebrew"
  by (simp add: detect_language_def detect_text_def Let_def split_beta shalom_runs
        shalom_vocabulary hints_given_def)

theorem aramaic_count_characterisation_witness:
  "language (detect_language (PyStr [1513, 1500, 1493, 1501]) None None None) \<noteq> Aramaic
   \<and> aramaic_count (detect_language (PyStr [1513, 1500, 1493, 1501]) None None None) = 0
   \<and> [1488, 32, 67648] \<noteq> ([] :: ustring)
   \<and> hebrew_count (detect_language (PyStr [1488, 32, 67648]) None None None) = 1"
  using aramaic_count_characterisation [THEN conjunct1, rule_format,
          of "PyStr [1513, 1500, 1493, 1501]" None None None]
        aramaic_count_characterisation [THEN conjunct2, THEN conjunct1, rule_format,
          of "[1488, 32, 67648]" None None None]
  by (simp add: shalom_language mixed_example_runs)

section \<open>Properties of the verse locator\<close>

subsection \<open>The position after a line\<close>

lemma collect_hebrew_fields:
  "current_book (collect_hebrew st line) = current_book st"
  "current_chapter (collect_hebrew st line) = current_chapter st"
  "current_verse (collect_hebrew st line) = current_verse st"
  by (simp_all add: collect_hebrew_def Let_def split: option.splits)

lemma collect_hebrew_position: "position (collect_hebrew st line) = position st"
  by (simp add: position_def collect_hebrew_fields)

lemma book_header_position:
  "position (book_header st line) =
     (case match_book line of Some b \<Rightarrow> (1, 0) | None \<Rightarrow> position st)"
  by (simp add: book_header_def position_def split: option.splits)

lemma verse_reference_position:
  "verse_reference st line = Inr st' \<Longrightarrow>
   position st' =
     (case verse_search line of
        Some (g1, g2) \<Rightarrow> (digits_value g1, digits_value g2)
      | None \<Rightarrow> position st)"
  by (auto simp: verse_reference_def position_def py_int_def split: option.splits sum.splits if_splits)

lemma locate_line_position_aux:
  "locate_line st line = Inr st' \<Longrightarrow>
   position st' =
     (case verse_search line of
        Some (g1, g2) \<Rightarrow> (digits_value g1, digits_value g2)
      | None \<Rightarrow> (case match_book line of Some b \<Rightarrow> (1, 0) | None \<Rightarrow> position st))"
  by (auto simp: locate_line_def collect_hebrew_position book_header_position
        dest!: verse_reference_position split: sum.splits option.splits)

lemma verse_match_at_length:
  "verse_match_at s = Some (g1, g2) \<Longrightarrow> length g1 \<le> length s \<and> length g2 \<le> length s"
proof -
  assume a: "verse_match_at s = Some (g1, g2)"
  have l1: "length (takeWhile is_digit s) \<le> length s" by (rule length_takeWhile_le)
  have l2: "length (dropWhile is_digit s) \<le> length s" by (rule length_dropWhile_le)
  from a obtain r' where r: "dropWhile is_digit s = 58 # r'" and g1: "g1 = takeWhile is_digit s"
      and g2: "g2 = takeWhile is_digit r'"
    by (auto simp: verse_match_at_def Let_def split: if_splits list.splits)
  have "length g2 \<le> length r'" unfolding g2 by (rule length_takeWhile_le)
  also have "\<dots> \<le> length s" using l2 r by simp
  finally show ?thesis using l1 g1 by simp
qed

lemma verse_search_length:
  "verse_search s = Some (g1, g2) \<Longrightarrow> length g1 \<le> length s \<and> length g2 \<le> length s"
proof (induction s)
  case Nil then show ?case by simp
next
  case (Cons c cs)
  show ?case
  proof (cases "verse_match_at (c # cs)")
    case None
    with Cons show ?thesis by auto
  next
    case (Some m)
    with Cons.prems have "verse_match_at (c # cs) = Some (g1, g2)" by simp
    then show ?thesis by (rule verse_match_at_length)
  qed
qed

lemma locate_line_total:
  "length line \<le> int_max_str_digits \<Longrightarrow> \<exists>st'. locate_line st line = Inr st'"
proof (cases "verse_search line")
  case None
  then show ?thesis by (simp add: locate_line_def verse_reference_def)
next
  case (Some m)
  obtain g1 g2 where m: "m = (g1, g2)" by (cases m)
  assume "length line \<le> int_max_str_digits"
  with verse_search_length [of line g1 g2] Some m
  have "length g1 \<le> int_max_str_digits" "length g2 \<le> int_max_str_digits" by auto
  then show ?thesis using Some m
    by (simp add: locate_line_def verse_reference_def py_int_def)
qed

lemma digits_value_nonneg_aux: "0 \<le> a \<Longrightarrow> 0 \<le> foldl (\<lambda>a d. 10 * a + int (the (decimal_value d))) a ds"
  by (induction ds arbitrary: a) auto

lemma digits_value_nonneg: "0 \<le> digits_value ds"
  by (simp add: digits_value_def digits_value_nonneg_aux)

lemma ascii_digit_value: "48 \<le> c \<Longrightarrow> c < 58 \<Longrightarrow> decimal_value c = Some (c - 48)"
  by (simp add: decimal_value_def decimal_zeros_def)

lemma colon_no_digit: "decimal_value 58 = None"
  by (simp add: decimal_value_def decimal_zeros_def)

lemma digit_simps:
  "is_digit 49" "is_digit 50" "is_digit 51" "is_digit 53" "\<not> is_digit 58"
  by (simp_all add: is_digit_def ascii_digit_value colon_no_digit)

lemma py_int_simps:
  "py_int [49] = Inr 1" "py_int [50] = Inr 2" "py_int [51] = Inr 3" "py_int [53] = Inr 5"
  by (simp_all add: py_int_def int_max_str_digits_def digits_value_def ascii_digit_value)

lemma reference_lines:
  "verse_search (ascii ''3:5'') = Some ([51], [53])"
  "verse_search (ascii ''1:2'') = Some ([49], [50])"
  "verse_search (ascii ''1:1'') = Some ([49], [49])"
  by (simp_all add: ascii_def verse_match_at_def digit_simps Let_def)

lemma reference_lines_book:
  "match_book (ascii ''3:5'') = None"
  "match_book (ascii ''1:2'') = None"
  "match_book (ascii ''1:1'') = None"
  by (simp_all add: ascii_def match_book_def book_patterns_def ci_match_def)

lemma reference_lines_hebrew:
  "findall_class bhs_hebrew_cp (ascii ''3:5'') = []"
  "findall_class bhs_hebrew_cp (ascii ''1:2'') = []"
  "findall_class bhs_hebrew_cp (ascii ''1:1'') = []"
  by (simp_all add: ascii_def findall_class_def bhs_hebrew_cp_def)

lemma exodus_line:
  "verse_search (ascii ''Exodus'') = None"
  "match_book (ascii ''Exodus'') = Some (ascii ''exodus'')"
  "findall_class bhs_hebrew_cp (ascii ''Exodus'') = []"
    apply (simp add: ascii_def verse_match_at_def is_digit_def decimal_value_def decimal_zeros_def)
   apply (simp add: ascii_def match_book_def book_patterns_def ci_match_def)
  apply (simp add: ascii_def findall_class_def bhs_hebrew_cp_def)
  done

lemma locate_line_nonneg:
  assumes "locate_line st line = Inr st'" "0 \<le> current_chapter st" "0 \<le> current_verse st"
  shows "0 \<le> current_chapter st' \<and> 0 \<le> current_verse st'"
proof -
  have "position st' =
     (case verse_search line of
        Some (g1, g2) \<Rightarrow> (digits_value g1, digits_value g2)
      | None \<Rightarrow> (case match_book line of Some b \<Rightarrow> (1, 0) | None \<Rightarrow> position st))"
    using assms(1) by (rule locate_line_position_aux)
  then show ?thesis
    using assms(2,3) digits_value_nonneg
    by (auto simp: position_def split: option.splits)
qed

lemma locate_reference_line:
  "verse_search line = Some (g1, g2) \<Longrightarrow> py_int g1 = Inr c \<Longrightarrow> py_int g2 = Inr v \<Longrightarrow>
   match_book line = None \<Longrightarrow> findall_class bhs_hebrew_cp line = [] \<Longrightarrow>
   locate_line st line = Inr (st\<lparr>current_chapter := c, current_verse := v\<rparr>)"
  by (simp add: locate_line_def book_header_def verse_reference_def collect_hebrew_def)

lemma locate_header_line:
  "verse_search line = None \<Longrightarrow> match_book line = Some b \<Longrightarrow>
   findall_class bhs_hebrew_cp line = [] \<Longrightarrow>
   locate_line st line = Inr (st\<lparr>current_book := b, current_chapter := 1, current_verse := 0\<rparr>)"
  by (simp add: locate_line_def book_header_def verse_reference_def collect_hebrew_def)

lemmas locate_simple_lines =
  locate_reference_line [OF reference_lines(1) py_int_simps(3) py_int_simps(4)
    reference_lines_book(1) reference_lines_hebrew(1)]
  locate_reference_line [OF reference_lines(2) py_int_simps(1) py_int_simps(2)
    reference_lines_book(2) reference_lines_hebrew(2)]
  locate_reference_line [OF reference_lines(3) py_int_simps(1) py_int_simps(1)
    reference_lines_book(3) reference_lines_hebrew(3)]
  locate_header_line [OF exodus_line]

text \<open>
  C5. The claim says that no line makes \<open>current_chapter\<close> or \<open>current_verse\<close> smaller. The scan
  of the lines \<open>3:5\<close>, \<open>1:2\<close> is at chapter 3, verse 5 after the first line and at chapter 1,
  verse 2 after the second; the scan of the lines \<open>1:1\<close>, \<open>Exodus\<close> is at verse 1 after the
  first line and at verse 0 after the second.
\<close>

theorem locator_position_decreases:
  "map_sum id position (locate_lines initial_locator [ascii ''3:5'']) = Inr (3, 5)
   \<and> map_sum id position (locate_lines initial_locator [ascii ''3:5'', ascii ''1:2'']) = Inr (1, 2)
   \<and> map_sum id position (locate_lines initial_locator [ascii ''1:1'']) = Inr (1, 1)
   \<and> map_sum id position (locate_lines initial_locator [ascii ''1:1'', ascii ''Exodus'']) = Inr (1, 0)"
  by (simp add: locate_simple_lines position_def)

text \<open>
  C5, amended. A line that is processed without an exception leaves the scan at the chapter and
  verse given by the line alone when it has a reference or a book name, whatever the position
  before, so that the position can decrease: at the two numbers of the leftmost
  \<open>chapter:verse\<close> pattern of the line if it has one; otherwise at chapter 1, verse 0 if a book
  pattern occurs in the line; otherwise at the position before the line. Every line of at most
  4300 code points is processed without an exception, and chapter and verse never become
  negative.
\<close>

theorem locate_line_position:
  "(\<forall>st line st'. locate_line st line = Inr st' \<longrightarrow>
      position st' =
        (case verse_search line of
           Some (g1, g2) \<Rightarrow> (digits_value g1, digits_value g2)
         | None \<Rightarrow> (case match_book line of Some b \<Rightarrow> (1, 0) | None \<Rightarrow> position st)))
   \<and> (\<forall>st line. length line \<le> 4300 \<longrightarrow> (\<exists>st'. locate_line st line = Inr st'))
   \<and> (\<forall>st line st'. locate_line st line = Inr st' \<and> 0 \<le> current_chapter st
          \<and> 0 \<le> current_verse st \<longrightarrow> 0 \<le> current_chapter st' \<and> 0 \<le> current_verse st')"
proof (intro conjI allI impI)
  fix st line st'
  assume "locate_line st line = Inr st'"
  then show "position st' =
        (case verse_search line of
           Some (g1, g2) \<Rightarrow> (digits_value g1, digits_value g2)
         | None \<Rightarrow> (case match_book line of Some b \<Rightarrow> (1, 0) | None \<Rightarrow> position st))"
    by (rule locate_line_position_aux)
next
  fix st :: locator and line :: ustring
  assume "length line \<le> 4300"
  then show "\<exists>st'. locate_line st line = Inr st'"
    using locate_line_total [of line st] by (simp add: int_max_str_digits_def)
next
  fix st line st'
  assume a: "locate_line st line = Inr st' \<and> 0 \<le> current_chapter st \<and> 0 \<le> current_verse st"
  then show "0 \<le> current_chapter st'" using locate_line_nonneg [of st line st'] by simp
  from a show "0 \<le> current_verse st'" using locate_line_nonneg [of st line st'] by simp
qed

theorem locate_line_position_witness:
  "locate_line
     \<lparr>current_book = ascii ''genesis'', current_chapter = 3, current_verse = 5,
      parsed_verses = Map.empty\<rparr> (ascii ''1:2'') =
   Inr \<lparr>current_book = ascii ''genesis'', current_chapter = 1, current_verse = 2,
        parsed_verses = Map.empty\<rparr>
   \<and> position \<lparr>current_book = ascii ''genesis'', current_chapter = 1, current_verse = 2,
        parsed_verses = Map.empty\<rparr> = (digits_value [49], digits_value [50])
   \<and> length (ascii ''1:2'') \<le> 4300"
  using locate_line_position [THEN conjunct1, rule_format,
      of "\<lparr>current_book = ascii ''genesis'', current_chapter = 3, current_verse = 5,
           parsed_verses = Map.empty\<rparr>" "ascii ''1:2''"
         "\<lparr>current_book = ascii ''genesis'', current_chapter = 1, current_verse = 2,
           parsed_verses = Map.empty\<rparr>"]
  by (simp add: locate_simple_lines reference_lines) (simp add: ascii_def)

subsection \<open>The text collected for a verse\<close>

lemma decimal_zeros_bounds: "\<forall>z\<in>set decimal_zeros. z = 48 \<or> 1632 \<le> z"
  by (simp add: decimal_zeros_def)

lemma hebrew_not_digit: "bhs_hebrew_cp c \<Longrightarrow> \<not> is_digit c"
proof -
  assume h: "bhs_hebrew_cp c"
  then have c: "1424 \<le> c" "c \<le> 1535" by (auto simp: bhs_hebrew_cp_def)
  have "\<not> (z \<le> c \<and> c < z + 10)" if "z \<in> set decimal_zeros" for z
    using decimal_zeros_bounds that c by fastforce
  then have "find (\<lambda>z. z \<le> c \<and> c < z + 10) decimal_zeros = None"
    by (simp add: find_None_iff)
  then show ?thesis by (simp add: is_digit_def decimal_value_def)
qed

lemma no_digit_no_match: "\<not> is_digit c \<Longrightarrow> verse_match_at (c # cs) = None"
  by (simp add: verse_match_at_def)

lemma hebrew_line_no_reference: "list_all bhs_hebrew_cp A \<Longrightarrow> verse_search A = None"
  by (induction A) (simp_all add: no_digit_no_match hebrew_not_digit)

lemma runs_from_all: "list_all P A \<Longrightarrow> cur @ A \<noteq> [] \<Longrightarrow> runs_from P cur A = [cur @ A]"
  by (induction A arbitrary: cur) simp_all

lemma hebrew_line_runs:
  "A \<noteq> [] \<Longrightarrow> list_all bhs_hebrew_cp A \<Longrightarrow> findall_class bhs_hebrew_cp A = [A]"
  using runs_from_all [of bhs_hebrew_cp A "[]"] by (simp add: findall_class_def)

lemma locate_line_parsed:
  "locate_line st line = Inr st' \<Longrightarrow>
   parsed_verses st' =
     (if findall_class bhs_hebrew_cp line \<noteq> [] \<and> current_verse st' > 0
      then (parsed_verses st)
             (verse_key (current_book st') (current_chapter st') (current_verse st') \<mapsto>
                (case parsed_verses st
                        (verse_key (current_book st') (current_chapter st') (current_verse st')) of
                   None \<Rightarrow> join [32] (findall_class bhs_hebrew_cp line)
                 | Some old \<Rightarrow> old @ [32] @ join [32] (findall_class bhs_hebrew_cp line)))
      else parsed_verses st)"
  by (auto simp: locate_line_def book_header_def verse_reference_def collect_hebrew_def Let_def
        split: sum.splits option.splits prod.splits if_splits)

lemma locate_hebrew_line:
  "verse_search line = None \<Longrightarrow> match_book line = None \<Longrightarrow>
   findall_class bhs_hebrew_cp line \<noteq> [] \<Longrightarrow> current_verse st > 0 \<Longrightarrow>
   locate_line st line =
     Inr (st\<lparr>parsed_verses := (parsed_verses st)
            (verse_key (current_book st) (current_chapter st) (current_verse st) \<mapsto>
               (case parsed_verses st
                       (verse_key (current_book st) (current_chapter st) (current_verse st)) of
                  None \<Rightarrow> join [32] (findall_class bhs_hebrew_cp line)
                | Some old \<Rightarrow> old @ [32] @ join [32] (findall_class bhs_hebrew_cp line)))\<rparr>)"
  by (simp add: locate_line_def book_header_def verse_reference_def collect_hebrew_def Let_def
        split: option.splits)

lemma genesis_line:
  "verse_search (ascii ''Genesis'') = None"
  "match_book (ascii ''Genesis'') = Some (ascii ''genesis'')"
  "findall_class bhs_hebrew_cp (ascii ''Genesis'') = []"
    apply (simp add: ascii_def verse_match_at_def is_digit_def decimal_value_def decimal_zeros_def)
   apply (simp add: ascii_def match_book_def book_patterns_def ci_match_def)
  apply (simp add: ascii_def findall_class_def bhs_hebrew_cp_def)
  done

lemma str_int_simps: "str_int 1 = [49]" "str_int 2 = [50]"
  by (simp_all add: str_int_def) (subst str_nat.simps, simp)+

lemma verse_key_simps:
  "verse_key (ascii ''genesis'') 1 1 = ascii ''genesis-1-1''"
  "verse_key (ascii ''genesis'') 1 2 = ascii ''genesis-1-2''"
  "verse_key (ascii ''deuteronomy'') 1 2 = ascii ''deuteronomy-1-2''"
  by (simp_all add: verse_key_def str_int_simps ascii_def)

lemma key_distinct:
  "ascii ''genesis-1-1'' \<noteq> ascii ''genesis-1-2''"
  by (simp add: ascii_def)

lemma genesis_example:
  assumes A: "findall_class bhs_hebrew_cp A \<noteq> []" "verse_search A = None" "match_book A = None"
      and B: "findall_class bhs_hebrew_cp B \<noteq> []" "verse_search B = None" "match_book B = None"
  shows "parse_lines [ascii ''Genesis'', ascii ''1:1'', A, ascii ''1:2'', B] =
     Inr [ascii ''genesis-1-1'' \<mapsto> join [32] (findall_class bhs_hebrew_cp A),
          ascii ''genesis-1-2'' \<mapsto> join [32] (findall_class bhs_hebrew_cp B)]"
  by (simp add: parse_lines_def initial_locator_def locate_header_line [OF genesis_line]
        locate_simple_lines locate_hebrew_line [OF A(2) A(3) A(1)]
        locate_hebrew_line [OF B(2) B(3) B(1)] verse_key_simps key_distinct key_distinct [symmetric])

lemma locate_book_line:
  "verse_search line = None \<Longrightarrow> match_book line = Some b \<Longrightarrow>
   locate_line st line = Inr (st\<lparr>current_book := b, current_chapter := 1, current_verse := 0\<rparr>)"
  by (simp add: locate_line_def book_header_def verse_reference_def collect_hebrew_def)

lemma devarim_line:
  "list_all bhs_hebrew_cp [1491, 1489, 1512, 1497, 1501]"
  "match_book [1491, 1489, 1512, 1497, 1501] = Some (ascii ''deuteronomy'')"
   apply (simp add: bhs_hebrew_cp_def)
  apply (simp add: match_book_def book_patterns_def ci_match_def ascii_def)
  done

lemma letter_lines:
  "list_all bhs_hebrew_cp [1488]" "match_book [1488] = None"
  "list_all bhs_hebrew_cp [1489]" "match_book [1489] = None"
     apply (simp add: bhs_hebrew_cp_def)
    apply (simp add: match_book_def book_patterns_def ci_match_def ascii_def)
   apply (simp add: bhs_hebrew_cp_def)
  apply (simp add: match_book_def book_patterns_def ci_match_def ascii_def)
  done

lemma hebrew_letters:
  "bhs_hebrew_cp 1488" "bhs_hebrew_cp 1489" "bhs_hebrew_cp 1491" "bhs_hebrew_cp 1497"
  "bhs_hebrew_cp 1501" "bhs_hebrew_cp 1512"
  by (simp_all add: bhs_hebrew_cp_def)

lemma key_distinct_deuteronomy:
  "ascii ''genesis-1-1'' \<noteq> ascii ''deuteronomy-1-2''"
  "ascii ''genesis-1-2'' \<noteq> ascii ''deuteronomy-1-2''"
  by (simp_all add: ascii_def)

text \<open>
  C6. The claim ends with an example: for the lines \<open>Genesis\<close>, \<open>1:1\<close>, A, \<open>1:2\<close>, B, with A and
  B lines of Hebrew script, the output has exactly the entries \<open>genesis-1-1\<close> with A and
  \<open>genesis-1-2\<close> with B. With the Hebrew line A of the five letters U+05D3 U+05D1 U+05E8 U+05D9
  U+05DD, which is the pattern of the book Deuteronomy, and B the letter U+05D0, the output has
  the single entry \<open>deuteronomy-1-2\<close> with B: the line A is taken as a book header, moves the
  scan to verse 0 of Deuteronomy, and is not stored.
\<close>

theorem locator_example_book_name:
  "parse_lines [ascii ''Genesis'', ascii ''1:1'', [1491, 1489, 1512, 1497, 1501], ascii ''1:2'',
      [1488]] = Inr [ascii ''deuteronomy-1-2'' \<mapsto> [1488]]
   \<and> [ascii ''deuteronomy-1-2'' \<mapsto> [1488]] (ascii ''genesis-1-1'') = None
   \<and> [ascii ''deuteronomy-1-2'' \<mapsto> [1488]] (ascii ''genesis-1-2'') = None
   \<and> list_all bhs_hebrew_cp [1491, 1489, 1512, 1497, 1501] \<and> list_all bhs_hebrew_cp [1488]"
  by (simp add: parse_lines_def initial_locator_def locate_header_line [OF genesis_line]
        locate_simple_lines
        locate_book_line [OF hebrew_line_no_reference [OF devarim_line(1)] devarim_line(2)]
        locate_hebrew_line [OF hebrew_line_no_reference [OF letter_lines(1)] letter_lines(2)]
        hebrew_line_runs [OF _ letter_lines(1)] verse_key_simps key_distinct_deuteronomy
        hebrew_letters)

text \<open>
  C6, amended. For every line that is processed without an exception, with the book, chapter and
  verse that the scan has after the header and reference checks of that line: if the line has at
  least one run of Hebrew code points and the verse is greater than 0, the runs joined by single
  spaces are stored under the key \<open>book-chapter-verse\<close>, as the entry if there is none and
  appended to the entry after a single space otherwise, and no other entry changes; if the line
  has no such run or the verse is not greater than 0, no entry changes. For the lines
  \<open>Genesis\<close>, \<open>1:1\<close>, A, \<open>1:2\<close>, B, where A and B have a run of Hebrew code points, no
  \<open>chapter:verse\<close> pattern and no book pattern, the output has exactly the two entries
  \<open>genesis-1-1\<close> with the joined runs of A and \<open>genesis-1-2\<close> with the joined runs of B. A
  non-empty line of Hebrew code points only has no \<open>chapter:verse\<close> pattern and is its own single
  run.
\<close>

theorem locate_line_collects:
  "(\<forall>st line st'. locate_line st line = Inr st' \<longrightarrow>
      parsed_verses st' =
        (if findall_class bhs_hebrew_cp line \<noteq> [] \<and> current_verse st' > 0
         then (parsed_verses st)
                (verse_key (current_book st') (current_chapter st') (current_verse st') \<mapsto>
                   (case parsed_verses st
                           (verse_key (current_book st') (current_chapter st') (current_verse st')) of
                      None \<Rightarrow> join [32] (findall_class bhs_hebrew_cp line)
                    | Some old \<Rightarrow> old @ [32] @ join [32] (findall_class bhs_hebrew_cp line)))
         else parsed_verses st))
   \<and> (\<forall>A B. findall_class bhs_hebrew_cp A \<noteq> [] \<and> verse_search A = None \<and> match_book A = None
          \<and> findall_class bhs_hebrew_cp B \<noteq> [] \<and> verse_search B = None \<and> match_book B = None
        \<longrightarrow> parse_lines [ascii ''Genesis'', ascii ''1:1'', A, ascii ''1:2'', B] =
              Inr [ascii ''genesis-1-1'' \<mapsto> join [32] (findall_class bhs_hebrew_cp A),
                   ascii ''genesis-1-2'' \<mapsto> join [32] (findall_class bhs_hebrew_cp B)])
   \<and> (\<forall>A. A \<noteq> [] \<and> list_all bhs_hebrew_cp A \<longrightarrow>
          findall_class bhs_hebrew_cp A = [A] \<and> join [32] (findall_class bhs_hebrew_cp A) = A
          \<and> verse_search A = None)"
proof (intro conjI allI impI)
  fix st line st'
  assume "locate_line st line = Inr st'"
  then show "parsed_verses st' =
        (if findall_class bhs_hebrew_cp line \<noteq> [] \<and> current_verse st' > 0
         then (parsed_verses st)
                (verse_key (current_book st') (current_chapter st') (current_verse st') \<mapsto>
                   (case parsed_verses st
                           (verse_key (current_book st') (current_chapter st') (current_verse st')) of
                      None \<Rightarrow> join [32] (findall_class bhs_hebrew_cp line)
                    | Some old \<Rightarrow> old @ [32] @ join [32] (findall_class bhs_hebrew_cp line)))
         else parsed_verses st)"
    by (rule locate_line_parsed)
next
  fix A B
  assume "findall_class bhs_hebrew_cp A \<noteq> [] \<and> verse_search A = None \<and> match_book A = None
          \<and> findall_class bhs_hebrew_cp B \<noteq> [] \<and> verse_search B = None \<and> match_book B = None"
  then show "parse_lines [ascii ''Genesis'', ascii ''1:1'', A, ascii ''1:2'', B] =
              Inr [ascii ''genesis-1-1'' \<mapsto> join [32] (findall_class bhs_hebrew_cp A),
                   ascii ''genesis-1-2'' \<mapsto> join [32] (findall_class bhs_hebrew_cp B)]"
    using genesis_example [of A B] by simp
next
  fix A :: ustring
  assume a: "A \<noteq> [] \<and> list_all bhs_hebrew_cp A"
  then show "findall_class bhs_hebrew_cp A = [A]" by (simp add: hebrew_line_runs)
  from a show "join [32] (findall_class bhs_hebrew_cp A) = A" by (simp add: hebrew_line_runs)
  from a show "verse_search A = None" by (simp add: hebrew_line_no_reference)
qed

theorem locate_line_collects_witness:
  "parse_lines [ascii ''Genesis'', ascii ''1:1'', [1488], ascii ''1:2'', [1489]] =
     Inr [ascii ''genesis-1-1'' \<mapsto> [1488], ascii ''genesis-1-2'' \<mapsto> [1489]]
   \<and> findall_class bhs_hebrew_cp [1488] = [[1488]] \<and> verse_search [1488] = None
   \<and> match_book [1488] = None
   \<and> findall_class bhs_hebrew_cp [1489] = [[1489]] \<and> verse_search [1489] = None
   \<and> match_book [1489] = None"
  using locate_line_collects [THEN conjunct2, THEN conjunct1, rule_format, of "[1488]" "[1489]"]
    locate_line_collects [THEN conjunct2, THEN conjunct2, rule_format, of "[1488]"]
    locate_line_collects [THEN conjunct2, THEN conjunct2, rule_format, of "[1489]"]
  by (simp add: letter_lines hebrew_letters)
section \<open>Properties of the accuracy verifier\<close>

lemma runs_from_nonempty: "[] \<notin> set (runs_from P cur s)"
  by (induction s arbitrary: cur) auto

lemma findall_class_nonempty: "[] \<notin> set (findall_class P s)"
  by (simp add: findall_class_def runs_from_nonempty)

lemma py_split_hd: "py_split v \<noteq> [] \<Longrightarrow> hd (py_split v) \<noteq> []"
  using findall_class_nonempty [of "\<lambda>c. \<not> py_isspace c" v]
  by (cases "py_split v") (auto simp: py_split_def)

lemma is_substr_Nil: "is_substr [] s"
  by (cases s) simp_all

lemma find_verse_empty_expected:
  "find_verse_in_ocr ratio P ocr (PyStr []) = Inr (True, 1, [])"
  by (simp add: find_verse_in_ocr_def Let_def is_substr_Nil)

lemma find_verse_no_runs:
  "v \<noteq> [] \<Longrightarrow> findall_class P ocr = [] \<Longrightarrow>
   find_verse_in_ocr ratio P ocr (PyStr v) = Inr (False, 0, [])"
  by (simp add: find_verse_in_ocr_def Let_def calculate_similarity_def py_split_hd)


lemma find_verse_str_returns: "\<exists>r. find_verse_in_ocr ratio P ocr (PyStr v) = Inr r"
  by (auto simp: find_verse_in_ocr_def Let_def)







lemma ascii_line_no_hebrew: "findall_class verify_hebrew_cp (ascii ''abc'') = []"
  by (simp add: findall_class_def ascii_def verify_hebrew_cp_def)

subsection \<open>Empty texts\<close>

text \<open>
  C3. For the empty expected text the function returns found = true and similarity 1.0,
  whatever the OCR text is: the empty string is a substring of every string, so the exact-match
  test returns before the test \<open>if not verified_words\<close> that returns found = false and
  similarity 0.0. The rest of the claim holds: for every non-empty expected text and every OCR
  text without a run of the script (the empty OCR text among them) the result is found = false,
  similarity 0.0, and the call returns without an exception for every expected text that is a
  string. An expected text that is not a string raises \<open>TypeError\<close>.
\<close>

theorem find_verse_in_ocr_empty:
  "(\<forall>ratio P ocr. find_verse_in_ocr ratio P ocr (PyStr []) = Inr (True, 1, []))
   \<and> (\<forall>ratio P ocr v. v \<noteq> [] \<and> findall_class P ocr = [] \<longrightarrow>
          find_verse_in_ocr ratio P ocr (PyStr v) = Inr (False, 0, []))
   \<and> (\<forall>ratio P v. v \<noteq> [] \<longrightarrow> find_verse_in_ocr ratio P [] (PyStr v) = Inr (False, 0, []))
   \<and> (\<forall>ratio P ocr v. \<exists>r. find_verse_in_ocr ratio P ocr (PyStr v) = Inr r)
   \<and> (\<forall>ratio P ocr x. \<not> is_str x \<longrightarrow> find_verse_in_ocr ratio P ocr x = Inl TypeError)"
proof (intro conjI allI impI)
  fix ratio P ocr
  show "find_verse_in_ocr ratio P ocr (PyStr []) = Inr (True, 1, [])"
    by (rule find_verse_empty_expected)
next
  fix ratio P ocr and v :: ustring
  assume "v \<noteq> [] \<and> findall_class P ocr = []"
  then show "find_verse_in_ocr ratio P ocr (PyStr v) = Inr (False, 0, [])"
    by (simp add: find_verse_no_runs)
next
  fix ratio P and v :: ustring
  assume "v \<noteq> []"
  then show "find_verse_in_ocr ratio P [] (PyStr v) = Inr (False, 0, [])"
    by (simp add: find_verse_no_runs)
next
  fix ratio P ocr v
  show "\<exists>r. find_verse_in_ocr ratio P ocr (PyStr v) = Inr r"
    by (rule find_verse_str_returns)
next
  fix ratio P ocr x
  assume "\<not> is_str x"
  then show "find_verse_in_ocr ratio P ocr x = Inl TypeError"
    by (simp add: find_verse_in_ocr_def Let_def)
qed

theorem find_verse_in_ocr_empty_witness:
  "[1488] \<noteq> ([] :: ustring) \<and> findall_class verify_hebrew_cp (ascii ''abc'') = []
   \<and> find_verse_in_ocr (\<lambda>a b. 1) verify_hebrew_cp (ascii ''abc'') (PyStr [1488]) = Inr (False, 0, [])
   \<and> find_verse_in_ocr (\<lambda>a b. 1) verify_hebrew_cp [] (PyStr [1488]) = Inr (False, 0, [])
   \<and> find_verse_in_ocr (\<lambda>a b. 1) verify_hebrew_cp [] PyNone = Inl TypeError"
  using find_verse_in_ocr_empty [THEN conjunct2, THEN conjunct1, rule_format,
          of "[1488]" verify_hebrew_cp "ascii ''abc''" "\<lambda>a b. 1"]
        find_verse_in_ocr_empty [THEN conjunct2, THEN conjunct2, THEN conjunct1, rule_format,
          of "[1488]" "\<lambda>a b. 1" verify_hebrew_cp]
        find_verse_in_ocr_empty [THEN conjunct2, THEN conjunct2, THEN conjunct2, THEN conjunct2,
          rule_format, of PyNone "\<lambda>a b. 1" verify_hebrew_cp "[]"]
  by (simp add: ascii_line_no_hebrew)

subsection \<open>The exact match\<close>





section \<open>Properties of the OCR configuration search\<close>

subsection \<open>The best configuration\<close>







subsection \<open>The preprocessing chain\<close>







end
